theory Spec2Isabelle
  imports Complex_Main "HOL-Library.Char_ord" "HOL-Library.List_Lexorder"
begin

section \<open>Data model of \<open>iwin.Site\<close>\<close>

text \<open>
  The class \<open>Site\<close> of \<open>src/iwin/__init__.py\<close> holds one nursery site: its identifiers,
  a dictionary of named attributes, the list of error records and a number of cached series.
  Python values stored in the dictionaries are modelled by \<open>pyval\<close>; \<open>PyNaN\<close> is the float
  \<open>nan\<close>, \<open>PyFloat\<close> a finite float (rounding of binary floating point is not modelled, a
  float is the real number it denotes). An error record \<open>{"uid": .., "loc": .., "error": ..}\<close>
  is an association list in the order the dictionary literal is written.
  Console output (\<open>print\<close>, the \<open>verbose\<close> flag) is not modelled.
\<close>

datatype pyval =
    PyNone
  | PyStr string
  | PyInt int
  | PyFloat real
  | PyNaN
  | PyBool bool
  | PyErrors "(string \<times> pyval) list list"

type_synonym pydict = "string \<rightharpoonup> pyval"

type_synonym error_entry = "(string \<times> pyval) list"

text \<open>
  The text of a raised exception, \<open>str(err)\<close>. The wording of the messages that the
  interpreter and the libraries produce is abbreviated.
\<close>

type_synonym pyexn = string

text \<open>
  The model object \<open>m\<close> gives named numeric constants through \<open>m.parameters[...]\<close>; the
  constants read by the functions below are the fields of \<open>model_parameters\<close>. \<open>RUE\<close> and
  \<open>YIELD_FACTOR\<close> may be \<open>None\<close>, which the source tests for.
\<close>

record model_parameters =
  DAP :: int
  CONST_DAYHR_AS :: real
  GDD_Required_to_EmergenceDate :: real
  CROP_OPTIMUM_TEMPERATURE :: real
  DAYS_GRAIN_FILLING :: real
  TDAYS_THRESHOLD_MATURITY :: real
  TDAYS_SCALE_MATURITY :: real
  TDAYS_RATE_MATURITY :: real
  RUE :: "real option"
  YIELD_FACTOR :: "real option"

record model =
  parameters :: model_parameters

text \<open>One row of the weather table; \<open>Date\<close> is a day number.\<close>

record wrow =
  Date :: int
  TMIN :: real
  TMAX :: real
  TAVG :: real
  SolRad :: real
  PCP :: real

text \<open>
  A float produced by numpy arithmetic: division by zero gives an infinity or \<open>NaN\<close>
  instead of raising.
\<close>

datatype npfloat = Fin real | PInf | NInf | NaN

text \<open>
  What the functions below take from libraries and from the package \<open>iwin.iparyield\<close>
  (which is not among the sources) is a parameter of the model:
  \<^item> \<open>to_datetime v\<close> is \<open>pd.to_datetime(str(v))\<close> and \<open>to_datetime_ymd v\<close> the same call
    with \<open>format='%Y-%m-%d'\<close>: a day number, \<open>None\<close> for \<open>NaT\<close>, or the exception raised;
  \<^item> \<open>as_timestamp s\<close> is the timestamp pandas compares the \<open>Date\<close> column with when the
    other operand is the string \<open>s\<close> (it raises for a string that is no date);
  \<^item> \<open>date_str d\<close> is \<open>str(d).split(' ')[0]\<close> for a timestamp \<open>d\<close>;
  \<^item> \<open>date_range s e\<close> is \<open>pd.date_range(start=s, end=e)\<close>;
  \<^item> \<open>PARAMETERS\<close> is the module-level default \<open>model.PARAMETERS\<close>;
  \<^item> \<open>estimate_TAdjDay\<close> is \<open>tadjday.estimate_TAdjDay\<close> and \<open>calculateNDVI_HM\<close> is
    \<open>ndvi.calculateNDVI_HM\<close>, whose formulas the specification does not give.
\<close>

record pyenv =
  to_datetime :: "pyval \<Rightarrow> pyexn + int option"
  to_datetime_ymd :: "pyval \<Rightarrow> pyexn + int option"
  as_timestamp :: "string \<Rightarrow> pyexn + int option"
  date_str :: "int \<Rightarrow> string"
  date_range :: "pyval \<Rightarrow> pyval \<Rightarrow> pyexn + int list"
  PARAMETERS :: model_parameters
  estimate_TAdjDay :: "real list \<Rightarrow> real \<Rightarrow> real \<Rightarrow> real \<Rightarrow> real list"
  calculateNDVI_HM :: "npfloat list \<Rightarrow> real \<Rightarrow> pyexn + real list option"

record site =
  uid :: pyval
  loc :: pyval
  attributes :: pydict
  params :: pydict
  pheno_dates :: "int list option"
  weather :: "wrow list option"
  GDD :: "real list option"
  errors :: "error_entry list"
  norm_tt :: "string \<rightharpoonup> npfloat list option"
  series :: "string \<rightharpoonup> real list option"

text \<open>
  Instance fields created after \<open>__init__\<close> live in two stores, by the kind of their
  values: \<open>norm_tt\<close> holds the normalized thermal times \<open>self.Norm_TT_EH\<close>, ... and \<open>series\<close>
  the arrays of finite values \<open>self.SolRad_EH\<close>, \<open>self.PRFT_EH\<close>, \<open>self.iPAR_EH\<close>,
  \<open>self.NDVI\<close>, ... under their names. A name that is absent has never been assigned, and
  reading it raises \<open>AttributeError\<close>; \<open>Some None\<close> is the value \<open>None\<close>.
\<close>

text \<open>\<open>Site.__init__\<close> (lines 126-133).\<close>

definition init :: "pyval \<Rightarrow> pyval \<Rightarrow> pydict \<Rightarrow> pydict \<Rightarrow> site" where
  "init u l attrs ps =
     \<lparr>uid = u, loc = l, attributes = attrs, params = ps, pheno_dates = None,
      weather = None, GDD = None, errors = [], norm_tt = Map.empty, series = Map.empty\<rparr>"

text \<open>\<open>self.errors.append({"uid": self.uid, "loc": self.loc, "error": msg})\<close>.\<close>

definition append_error :: "string \<Rightarrow> site \<Rightarrow> site" where
  "append_error msg self =
     self\<lparr>errors := errors self @
       [[(''uid'', uid self), (''loc'', loc self), (''error'', PyStr msg)]]\<rparr>"

text \<open>\<open>Site.getAttr\<close> (lines 135-137): stores the error list in the attributes and returns them.\<close>

definition getAttr :: "site \<Rightarrow> pydict \<times> site" where
  "getAttr self =
     (let self' = self\<lparr>attributes := (attributes self)(''errors'' \<mapsto> PyErrors (errors self))\<rparr>
      in (attributes self', self'))"

section \<open>Days to heading\<close>

text \<open>Python's \<open>int(x)\<close> on a float: truncation toward zero.\<close>

definition py_int :: "real \<Rightarrow> int" where
  "py_int x = (if 0 \<le> x then \<lfloor>x\<rfloor> else \<lceil>x\<rceil>)"

text \<open>
  \<open>Site.getDaysToHeading\<close> (lines 650-684). \<open>m.parameters\<close> on \<open>m = None\<close> raises
  \<open>AttributeError\<close>, which this method does not catch.
\<close>

definition getDaysToHeading :: "site \<Rightarrow> model option \<Rightarrow> real \<Rightarrow> pyexn + int" where
  "getDaysToHeading self m dayHR =
     (case m of
        None \<Rightarrow> Inl ''AttributeError: NoneType object has no attribute parameters''
      | Some mm \<Rightarrow>
          Inr (py_int
            (if attributes self ''Nursery'' = Some (PyStr ''SAWYT'') then
               (if dayHR < CONST_DAYHR_AS (parameters mm) then 617.68 - (51.406 * dayHR)
                else if dayHR \<ge> CONST_DAYHR_AS (parameters mm) then 87.38 - (2.36 * dayHR)
                else 0)
             else
               (if dayHR < CONST_DAYHR_AS (parameters mm) then 491.27 - (38.62 * dayHR)
                else if dayHR \<ge> CONST_DAYHR_AS (parameters mm) then 115.36 - (3.87 * dayHR)
                else 0))))"

section \<open>Photosynthesis reduction factor\<close>

text \<open>
  Modelled from the spec: \<open>prft.calculatePRFT\<close> of the package \<open>iwin.iparyield.model\<close>, which
  is not among the sources. The specification (section 4.4) and the docstring of \<open>getPRFT\<close>
  give \<open>PRFT = 1 - 0.0025 * (TDay - TOpt)^2\<close>, applied to each day temperature.
\<close>

definition calculatePRFT :: "real list \<Rightarrow> real \<Rightarrow> real list" where
  "calculatePRFT TDay TOpt = map (\<lambda>t. 1 - 0.0025 * (t - TOpt)\<^sup>2) TDay"

text \<open>
  \<open>Site.getPRFT\<close> (lines 576-599). The \<open>except\<close> branch needs \<open>calculatePRFT\<close> to
  raise, which the arithmetic above never does.
\<close>

definition getPRFT ::
  "pyenv \<Rightarrow> model option \<Rightarrow> real list option \<Rightarrow> real option \<Rightarrow> real list option"
where
  "getPRFT env m TDay TOpt =
     (case TDay of
        None \<Rightarrow> None
      | Some td \<Rightarrow>
          (let topt =
             (case TOpt of
                Some t \<Rightarrow> t
              | None \<Rightarrow>
                  (case m of
                     Some mm \<Rightarrow> CROP_OPTIMUM_TEMPERATURE (parameters mm)
                   | None \<Rightarrow> CROP_OPTIMUM_TEMPERATURE (PARAMETERS env)))
           in Some (calculatePRFT td topt)))"

section \<open>Range of dates and emergence date\<close>

text \<open>
  The test \<open>v=='None' or v is None or str(v)=='nan' or str(v)=='null'\<close> that the source
  applies to a date attribute. \<open>str\<close> of a float is \<open>'nan'\<close> for the float \<open>nan\<close> only, and
  \<open>str\<close> of an integer, a finite float, a boolean or a list is none of the three words.
\<close>

fun date_invalid :: "pyval \<Rightarrow> bool" where
  "date_invalid PyNone = True"
| "date_invalid (PyStr s) = (s = ''None'' \<or> s = ''nan'' \<or> s = ''null'')"
| "date_invalid PyNaN = True"
| "date_invalid _ = False"

text \<open>\<open>str(pd.to_datetime(str(s)) + pd.DateOffset(days=int(n))).split(' ')[0]\<close>.\<close>

definition plus_days :: "pyenv \<Rightarrow> pyval \<Rightarrow> int \<Rightarrow> pyexn + pyval" where
  "plus_days env s n =
     (case to_datetime env s of
        Inl err \<Rightarrow> Inl err
      | Inr None \<Rightarrow> Inr (PyStr ''NaT'')
      | Inr (Some d) \<Rightarrow> Inr (PyStr (date_str env (d + n))))"

text \<open>
  \<open>Site.getRangeDates\<close> (lines 145-189); \<open>PyNone\<close> for an argument stands for the default
  \<open>None\<close>. First the start and end of the range (lines 156-178): \<open>Inr None\<close> is the
  \<open>return\<close> taken when the site has no sowing date.
\<close>

definition getRangeDates_bounds ::
  "pyenv \<Rightarrow> pyval \<Rightarrow> pyval \<Rightarrow> site \<Rightarrow> pyexn + (pyval \<times> pyval) option"
where
  "getRangeDates_bounds env s e self =
     (if s = PyNone \<or> e = PyNone then
        (case attributes self ''sowing'' of
           None \<Rightarrow> Inr None
         | Some s' \<Rightarrow>
             (case attributes self ''maturity'' of
                Some e' \<Rightarrow>
                  (if date_invalid e' then
                     (case params self ''estimateMaturity'' of
                        None \<Rightarrow> Inl ''KeyError: estimateMaturity''
                      | Some flag \<Rightarrow>
                          (if flag = PyBool True then
                             (case attributes self ''PredMaturity_H'' of
                                Some p \<Rightarrow> Inr (Some (s', p))
                              | None \<Rightarrow>
                                  (case attributes self ''PredMaturity_pH'' of
                                     Some p \<Rightarrow> Inr (Some (s', p))
                                   | None \<Rightarrow> Inr (Some (s', e'))))
                           else
                             (case plus_days env s' 365 of
                                Inl err \<Rightarrow> Inl err
                              | Inr e'' \<Rightarrow> Inr (Some (s', e'')))))
                   else Inr (Some (s', e')))
              | None \<Rightarrow>
                  (case plus_days env s' 365 of
                     Inl err \<Rightarrow> Inl err
                   | Inr e'' \<Rightarrow> Inr (Some (s', e'')))))
      else Inr (Some (s, e)))"

text \<open>
  The handler of \<open>getRangeDates\<close> (lines 185-187). \<open>raise ("...")\<close> with a string raises
  \<open>TypeError\<close>, which the handler catches as well.
\<close>

definition getRangeDates_except :: "pyexn \<Rightarrow> site \<Rightarrow> int list option \<times> site" where
  "getRangeDates_except err self =
     (let self' = append_error (''Estimating range dates. Error: '' @ err) self
      in (pheno_dates self', self'))"

definition getRangeDates :: "pyenv \<Rightarrow> pyval \<Rightarrow> pyval \<Rightarrow> site \<Rightarrow> int list option \<times> site" where
  "getRangeDates env s e self =
     (let self1 = self\<lparr>pheno_dates := None\<rparr> in
      case getRangeDates_bounds env s e self1 of
        Inl err \<Rightarrow> getRangeDates_except err self1
      | Inr None \<Rightarrow> (None, self1)
      | Inr (Some (s', e')) \<Rightarrow>
          (if date_invalid s' \<or> date_invalid e' then
             getRangeDates_except ''exceptions must derive from BaseException'' self1
           else
             (case date_range env s' e' of
                Inl err \<Rightarrow> getRangeDates_except err self1
              | Inr ds \<Rightarrow> (Some ds, self1\<lparr>pheno_dates := Some ds\<rparr>))))"

text \<open>
  \<open>np.argmin\<close> on a one-dimensional array: the index of the first occurrence of the
  minimum. On an empty array numpy raises \<open>ValueError\<close> (\<open>np_argmin\<close>).
\<close>

fun argmin :: "real list \<Rightarrow> nat" where
  "argmin [] = 0"
| "argmin [x] = 0"
| "argmin (x # y # ys) = (let j = argmin (y # ys) in if x \<le> (y # ys) ! j then 0 else Suc j)"

definition np_argmin :: "real list \<Rightarrow> pyexn + nat" where
  "np_argmin xs =
     (if xs = [] then Inl ''attempt to get argmin of an empty sequence'' else Inr (argmin xs))"

text \<open>
  \<open>Site.getEmergenceDate\<close> (lines 604-645). The index is taken at line 630, where the
  array is not empty (line 619 returned otherwise).
\<close>

definition emergence_index :: "real list \<Rightarrow> real \<Rightarrow> nat" where
  "emergence_index cGDD GDDreq = argmin (map (\<lambda>c. \<bar>c - GDDreq\<bar>) cGDD)"

definition getEmergenceDate ::
  "pyenv \<Rightarrow> model option \<Rightarrow> real list option \<Rightarrow> real option \<Rightarrow> site \<Rightarrow> string option \<times> site"
where
  "getEmergenceDate env m cGDD GDDreq self =
     (let req =
        (case GDDreq of
           Some r \<Rightarrow> r
         | None \<Rightarrow>
             (case m of
                Some mm \<Rightarrow> GDD_Required_to_EmergenceDate (parameters mm)
              | None \<Rightarrow> GDD_Required_to_EmergenceDate (PARAMETERS env)))
      in
      case cGDD of
        None \<Rightarrow> (None, self)
      | Some c \<Rightarrow>
          (if length c \<le> 0 then (None, self)
           else if m = None then (None, self)
           else
             (let self1 =
                (if pheno_dates self = None then snd (getRangeDates env PyNone PyNone self)
                 else self);
                idx = emergence_index c req
              in
              case pheno_dates self1 of
                None \<Rightarrow> (None, self1)
              | Some ds \<Rightarrow>
                  (if idx < length ds then (Some (date_str env (ds ! idx)), self1)
                   else
                     (None,
                      append_error
                        (''Estimating emergence date. Error: '' @ ''index out of bounds'')
                        self1)))))"

section \<open>Statements of a \<open>try\<close> block\<close>

text \<open>
  A statement of a \<open>try\<close> block either completes or raises; in both cases it leaves the
  state (the site, or the site with the local variables of the method) as it has changed
  it so far. \<open>then_do\<close> runs a second statement after a first that
  completed, and \<open>try_except\<close> is the handler used throughout the class: it appends one
  error record whose text is a fixed prefix followed by the text of the exception.
\<close>

type_synonym 's stmt = "'s \<Rightarrow> pyexn option \<times> 's"

definition then_do :: "'s stmt \<Rightarrow> 's stmt \<Rightarrow> 's stmt" where
  "then_do f g self = (case f self of (Some err, self') \<Rightarrow> (Some err, self') | (None, self') \<Rightarrow> g self')"

definition try_except :: "site stmt \<Rightarrow> string \<Rightarrow> site \<Rightarrow> site" where
  "try_except body prefix self =
     (case body self of
        (None, self') \<Rightarrow> self'
      | (Some err, self') \<Rightarrow> append_error (prefix @ err) self')"

text \<open>A sequence of statements: it stops at the first one that raises.\<close>

fun seq :: "'s stmt list \<Rightarrow> 's stmt" where
  "seq [] st = (None, st)"
| "seq (f # fs) st = (case f st of (Some err, st') \<Rightarrow> (Some err, st') | (None, st') \<Rightarrow> seq fs st')"


section \<open>Normalized thermal time\<close>

text \<open>
  Division of numpy floats: a zero divisor gives \<open>nan\<close> for \<open>0/0\<close> and an infinity
  otherwise (warnings are switched off at line 6 of the module); the sign of a zero is not
  modelled.
\<close>

definition np_div :: "real \<Rightarrow> real \<Rightarrow> npfloat" where
  "np_div a b = (if b \<noteq> 0 then Fin (a / b) else if a = 0 then NaN else if 0 < a then PInf else NInf)"

text \<open>\<open>np.nanmin\<close> and \<open>np.nanmax\<close> on an array of finite values; an empty array raises.\<close>

definition nanmin :: "real list \<Rightarrow> pyexn + real" where
  "nanmin g =
     (case g of
        [] \<Rightarrow> Inl ''zero-size array to reduction operation fmin which has no identity''
      | x # xs \<Rightarrow> Inr (fold min xs x))"

definition nanmax :: "real list \<Rightarrow> pyexn + real" where
  "nanmax g =
     (case g of
        [] \<Rightarrow> Inl ''zero-size array to reduction operation fmax which has no identity''
      | x # xs \<Rightarrow> Inr (fold max xs x))"

text \<open>The expression \<open>(g - np.nanmin(g)) / (np.nanmax(g) - np.nanmin(g))\<close>.\<close>

definition normalize_tt :: "real list \<Rightarrow> pyexn + npfloat list" where
  "normalize_tt g =
     (case nanmin g of
        Inl err \<Rightarrow> Inl err
      | Inr lo \<Rightarrow>
          (case nanmax g of
             Inl err \<Rightarrow> Inl err
           | Inr hi \<Rightarrow> Inr (map (\<lambda>x. np_div (x - lo) (hi - lo)) g)))"

text \<open>
  One \<open>if (cGDD_X is not None): self.Norm_TT_X = ... else: self.Norm_TT_X = None\<close> of
  \<open>getNormalizeThermalTime\<close>.
\<close>

definition norm_assign :: "string \<Rightarrow> real list option \<Rightarrow> site stmt" where
  "norm_assign name cGDD self =
     (case cGDD of
        None \<Rightarrow> (None, self\<lparr>norm_tt := (norm_tt self)(name \<mapsto> None)\<rparr>)
      | Some g \<Rightarrow>
          (case normalize_tt g of
             Inl err \<Rightarrow> (Some err, self)
           | Inr v \<Rightarrow> (None, self\<lparr>norm_tt := (norm_tt self)(name \<mapsto> Some v)\<rparr>)))"

text \<open>
  \<open>Site.getNormalizeThermalTime\<close> (lines 1546-1598), with the arguments in the order of
  the source; the argument \<open>m\<close> is not used by the body.
\<close>

definition getNormalizeThermalTime ::
  "real list option \<Rightarrow> real list option \<Rightarrow> real list option \<Rightarrow> real list option \<Rightarrow>
   real list option \<Rightarrow> real list option \<Rightarrow> real list option \<Rightarrow> real list option \<Rightarrow> site \<Rightarrow> site"
where
  "getNormalizeThermalTime cGDD_EH cGDD_pEH cGDD_EpH cGDD_pEpH cGDD_HM cGDD_pHM cGDD_pHpM
     cGDD_HpM self =
     try_except
       (then_do (norm_assign ''Norm_TT_HM'' cGDD_HM)
       (then_do (norm_assign ''Norm_TT_pHM'' cGDD_pHM)
       (then_do (norm_assign ''Norm_TT_HpM'' cGDD_HpM)
                (norm_assign ''Norm_TT_pHpM'' cGDD_pHpM))))
       ''Normalizing GDD or thermal time from Heading to Maturity. Error: ''
       (try_except
          (then_do (norm_assign ''Norm_TT_EH'' cGDD_EH)
          (then_do (norm_assign ''Norm_TT_EpH'' cGDD_EpH)
          (then_do (norm_assign ''Norm_TT_pEH'' cGDD_pEH)
                   (norm_assign ''Norm_TT_pEpH'' cGDD_pEpH))))
          ''Normalizing GDD or thermal time from Emergence to Heading. Error: ''
          self)"

text \<open>
  The normalization as the specification words it, to be compared with \<open>normalize_tt\<close>:
  \<open>(g - min(g)) / (max(g) - min(g))\<close> for each element, undefined (\<open>NaN\<close>) when the maximum
  equals the minimum.
\<close>

definition spec_normalize :: "real list \<Rightarrow> npfloat list" where
  "spec_normalize g =
     map (\<lambda>x. if Max (set g) = Min (set g) then NaN
              else Fin ((x - Min (set g)) / (Max (set g) - Min (set g)))) g"

section \<open>Gross primary production and yield\<close>

text \<open>
  \<open>float("{:.kf}".format(x))\<close>: \<open>x\<close> rounded to \<open>k\<close> decimals, a tie going to the even
  neighbour.
\<close>

definition round_half_even :: "real \<Rightarrow> int" where
  "round_half_even y =
     (let f = \<lfloor>y\<rfloor>; r = y - of_int f
      in if r < 1 / 2 then f else if 1 / 2 < r then f + 1 else if even f then f else f + 1)"

definition fmt_float :: "nat \<Rightarrow> real \<Rightarrow> real" where
  "fmt_float k x = of_int (round_half_even (x * 10 ^ k)) / 10 ^ k"

text \<open>\<open>np.cumsum\<close>.\<close>

fun cumsum_from :: "real \<Rightarrow> real list \<Rightarrow> real list" where
  "cumsum_from acc [] = []"
| "cumsum_from acc (x # xs) = (acc + x) # cumsum_from (acc + x) xs"

definition cumsum :: "real list \<Rightarrow> real list" where
  "cumsum xs = cumsum_from 0 xs"

text \<open>The product of two series, element by element; operands of different lengths raise.\<close>

definition mul_series :: "real list \<Rightarrow> real list \<Rightarrow> pyexn + real list" where
  "mul_series xs ys =
     (if length xs = length ys then Inr (map (\<lambda>(x, y). x * y) (zip xs ys))
      else Inl ''operands could not be broadcast together'')"

text \<open>\<open>self.SolRad_X * 0.5 * RUE * self.PRFT_X * self.iPAR_X\<close>.\<close>

definition gpp_product :: "real \<Rightarrow> real list \<Rightarrow> real list \<Rightarrow> real list \<Rightarrow> pyexn + real list" where
  "gpp_product rue sr pf ip =
     (case mul_series (map (\<lambda>x. x * 0.5 * rue) sr) pf of
        Inl err \<Rightarrow> Inl err
      | Inr a \<Rightarrow> mul_series a ip)"

text \<open>
  The condition \<open>(RUE is not None) and (self.SolRad_X is not None) and (self.PRFT_X is not
  None) and (self.iPAR_X is not None)\<close>, evaluated from left to right: \<open>Inr None\<close> when it
  is false, the four values when it is true, \<open>AttributeError\<close> when a field that is read
  has never been assigned.
\<close>

definition gpp_inputs ::
  "real option \<Rightarrow> string \<Rightarrow> site \<Rightarrow> pyexn + (real \<times> real list \<times> real list \<times> real list) option"
where
  "gpp_inputs rue X self =
     (case rue of
        None \<Rightarrow> Inr None
      | Some r \<Rightarrow>
          (case series self (''SolRad_'' @ X) of
             None \<Rightarrow> Inl (''Site object has no attribute SolRad_'' @ X)
           | Some None \<Rightarrow> Inr None
           | Some (Some sr) \<Rightarrow>
               (case series self (''PRFT_'' @ X) of
                  None \<Rightarrow> Inl (''Site object has no attribute PRFT_'' @ X)
                | Some None \<Rightarrow> Inr None
                | Some (Some pf) \<Rightarrow>
                    (case series self (''iPAR_'' @ X) of
                       None \<Rightarrow> Inl (''Site object has no attribute iPAR_'' @ X)
                     | Some None \<Rightarrow> Inr None
                     | Some (Some ip) \<Rightarrow> Inr (Some (r, sr, pf, ip))))))"

text \<open>
  \<open>GPP_X = ...; cGPP_X = np.cumsum(GPP_X)\<close> and \<open>np.nanmax(cGPP_X)\<close>: the series and the
  maximum of its cumulative sum.
\<close>

definition gpp_values :: "real option \<Rightarrow> string \<Rightarrow> site \<Rightarrow> pyexn + (real list \<times> real) option" where
  "gpp_values rue X self =
     (case gpp_inputs rue X self of
        Inl err \<Rightarrow> Inl err
      | Inr None \<Rightarrow> Inr None
      | Inr (Some (r, sr, pf, ip)) \<Rightarrow>
          (case gpp_product r sr pf ip of
             Inl err \<Rightarrow> Inl err
           | Inr g \<Rightarrow>
               (case nanmax (cumsum g) of
                  Inl err \<Rightarrow> Inl err
                | Inr mx \<Rightarrow> Inr (Some (g, mx)))))"

definition set_gpp_attrs :: "string \<Rightarrow> real list \<Rightarrow> real \<Rightarrow> site \<Rightarrow> site" where
  "set_gpp_attrs X g mx self =
     self\<lparr>attributes := (attributes self)
       (''cGPP_'' @ X \<mapsto> PyFloat (fmt_float 3 mx),
        ''sumGPP_'' @ X \<mapsto> PyFloat (fmt_float 3 (sum_list g)))\<rparr>"

definition set_gpp_none :: "string \<Rightarrow> site \<Rightarrow> site" where
  "set_gpp_none X self =
     self\<lparr>attributes := (attributes self)(''cGPP_'' @ X \<mapsto> PyNone, ''sumGPP_'' @ X \<mapsto> PyNone)\<rparr>"

text \<open>The correction of the NDVI at heading (lines 2656, 2697, 2711, 2724).\<close>

definition corrected_NDVI_atHeading :: "real \<Rightarrow> real" where
  "corrected_NDVI_atHeading mx = 0.00024355578828840187 * mx + 0.5755361655424565"

definition set_NDVI_atHeading :: "string \<Rightarrow> real \<Rightarrow> site \<Rightarrow> site" where
  "set_NDVI_atHeading X mx self =
     self\<lparr>attributes := (attributes self)
       (''NDVI_atHeading_'' @ X \<mapsto> PyFloat (fmt_float 3 (corrected_NDVI_atHeading mx)))\<rparr>"

text \<open>The loop of lines 2673-2678, with \<open>min_val = 0.16\<close> and \<open>max_val = 0.94\<close>.\<close>

definition denormalize_NDVI :: "real list \<Rightarrow> real list" where
  "denormalize_NDVI vs = map (\<lambda>v. (v * (0.94 - 0.16)) + 0.16) vs"

text \<open>The block for emergence to heading (lines 2648-2683).\<close>

definition gpp_block_EH :: "pyenv \<Rightarrow> real option \<Rightarrow> site stmt" where
  "gpp_block_EH env rue self =
     (case gpp_values rue ''EH'' self of
        Inl err \<Rightarrow> (Some err, self)
      | Inr None \<Rightarrow> (None, set_gpp_none ''EH'' self)
      | Inr (Some (g, mx)) \<Rightarrow>
          (let self1 = set_NDVI_atHeading ''EH'' mx (set_gpp_attrs ''EH'' g mx self) in
           case norm_tt self1 ''Norm_TT_HM'' of
             None \<Rightarrow> (Some ''Site object has no attribute Norm_TT_HM'', self1)
           | Some None \<Rightarrow> (None, self1)
           | Some (Some tt) \<Rightarrow>
               (case calculateNDVI_HM env tt (corrected_NDVI_atHeading mx) of
                  Inl err \<Rightarrow> (Some err, self1)
                | Inr None \<Rightarrow>
                    (Some ''NoneType object is not iterable'',
                     self1\<lparr>series := (series self1)(''NDVI'' \<mapsto> None)\<rparr>)
                | Inr (Some vs) \<Rightarrow>
                    (None, self1\<lparr>series := (series self1)(''NDVI'' \<mapsto> Some (denormalize_NDVI vs))\<rparr>))))"

text \<open>The blocks for the estimated variants of emergence to heading (lines 2689-2728).\<close>

definition gpp_block_corr :: "real option \<Rightarrow> string \<Rightarrow> site stmt" where
  "gpp_block_corr rue X self =
     (case gpp_values rue X self of
        Inl err \<Rightarrow> (Some err, self)
      | Inr None \<Rightarrow> (None, set_gpp_none X self)
      | Inr (Some (g, mx)) \<Rightarrow> (None, set_NDVI_atHeading X mx (set_gpp_attrs X g mx self)))"

text \<open>The blocks for heading to maturity and its variants (lines 2730-2768).\<close>

definition gpp_block :: "real option \<Rightarrow> string \<Rightarrow> site stmt" where
  "gpp_block rue X self =
     (case gpp_values rue X self of
        Inl err \<Rightarrow> (Some err, self)
      | Inr None \<Rightarrow> (None, set_gpp_none X self)
      | Inr (Some (g, mx)) \<Rightarrow> (None, set_gpp_attrs X g mx self))"

text \<open>
  The \<open>try\<close> statement of lines 2647-2773 of \<open>Site.getIPAR\<close>; \<open>rue\<close> is the value of \<open>RUE\<close>
  after lines 2095-2098.
\<close>

definition getIPAR_GPP :: "pyenv \<Rightarrow> real option \<Rightarrow> site \<Rightarrow> site" where
  "getIPAR_GPP env rue self =
     try_except
       (then_do (gpp_block_EH env rue)
       (then_do (gpp_block_corr rue ''pEH'')
       (then_do (gpp_block_corr rue ''EpH'')
       (then_do (gpp_block_corr rue ''pEpH'')
       (then_do (gpp_block rue ''HM'')
       (then_do (gpp_block rue ''pHM'')
       (then_do (gpp_block rue ''HpM'')
                (gpp_block rue ''pHpM''))))))))
       ''Cumulative GPP from Heading to Maturity. Error: '' self"

text \<open>
  \<open>float("{:.2f}".format(self.attributes[key] * YIELD_FACTOR))\<close>: a number times the factor,
  rounded to two decimals; \<open>nan\<close> stays \<open>nan\<close>; a value that is no number, or a factor
  \<open>None\<close>, raises \<open>TypeError\<close>.
\<close>

definition yield_value :: "pyval \<Rightarrow> real option \<Rightarrow> pyexn + pyval" where
  "yield_value v yf =
     (case yf of
        None \<Rightarrow> Inl ''unsupported operand type(s) for *''
      | Some y \<Rightarrow>
          (case v of
             PyFloat x \<Rightarrow> Inr (PyFloat (fmt_float 2 (x * y)))
           | PyInt i \<Rightarrow> Inr (PyFloat (fmt_float 2 (of_int i * y)))
           | PyBool b \<Rightarrow> Inr (PyFloat (fmt_float 2 ((if b then 1 else 0) * y)))
           | PyNaN \<Rightarrow> Inr PyNaN
           | _ \<Rightarrow> Inl ''unsupported operand type(s) for *''))"

text \<open>One \<open>if (self.attributes[gkey] is not None): ... else: ...\<close> of lines 2782-2811.\<close>

definition yield_assign :: "real option \<Rightarrow> string \<Rightarrow> string \<Rightarrow> site stmt" where
  "yield_assign yf gkey ykey self =
     (case attributes self gkey of
        None \<Rightarrow> (Some ([CHR 0x27] @ gkey @ [CHR 0x27]), self)
      | Some PyNone \<Rightarrow> (None, self\<lparr>attributes := (attributes self)(ykey \<mapsto> PyNone)\<rparr>)
      | Some v \<Rightarrow>
          (case yield_value v yf of
             Inl err \<Rightarrow> (Some err, self)
           | Inr y \<Rightarrow> (None, self\<lparr>attributes := (attributes self)(ykey \<mapsto> y)\<rparr>)))"

text \<open>
  The \<open>try\<close> statement of lines 2780-2816 of \<open>Site.getIPAR\<close>; \<open>yf\<close> is the value of
  \<open>YIELD_FACTOR\<close> after lines 2100-2103.
\<close>

definition getIPAR_yield :: "real option \<Rightarrow> site \<Rightarrow> site" where
  "getIPAR_yield yf self =
     try_except
       (then_do (yield_assign yf ''sumGPP_HM'' ''SimYield'')
       (then_do (yield_assign yf ''sumGPP_pHM'' ''SimYield_pH'')
       (then_do (yield_assign yf ''sumGPP_HpM'' ''SimYield_pM'')
                (yield_assign yf ''sumGPP_pHpM'' ''SimYield_pHpM''))))
       ''Estimating Yield. Error: '' self"

text \<open>
  The yield attribute that \<open>getIPAR_yield\<close> stores for a value of \<open>sumGPP\<close>: the product
  with the yield factor rounded to two decimals for a number, \<open>None\<close> for \<open>None\<close>.
\<close>

definition rounded_yield :: "real \<Rightarrow> pyval \<Rightarrow> pyval" where
  "rounded_yield y v = (case v of PyFloat x \<Rightarrow> PyFloat (fmt_float 2 (x * y)) | _ \<Rightarrow> PyNone)"

text \<open>
  A statement keeps an attribute \<open>k\<close> when it changes neither the cached series, nor the
  normalized thermal times, nor the value of \<open>k\<close>, nor the error list.
\<close>

definition keeps :: "string \<Rightarrow> site stmt \<Rightarrow> bool" where
  "keeps k f =
     (\<forall>self. series (snd (f self)) = series self \<and> norm_tt (snd (f self)) = norm_tt self
        \<and> attributes (snd (f self)) k = attributes self k
        \<and> errors (snd (f self)) = errors self)"

section \<open>Maturity date\<close>

text \<open>
  The test of lines 759, 768 and 778, which also takes the empty string for a missing date:
  \<open>v=='None' or v is None or str(v)=='nan' or str(v)=='null' or str(v)==''\<close>.
\<close>

fun date_missing :: "pyval \<Rightarrow> bool" where
  "date_missing PyNone = True"
| "date_missing (PyStr s) = (s = ''None'' \<or> s = ''nan'' \<or> s = ''null'' \<or> s = [])"
| "date_missing PyNaN = True"
| "date_missing _ = False"

text \<open>
  \<open>v if v is not None else (m.parameters[k] if m is not None else model.PARAMETERS[k])\<close>,
  the way an optional argument is filled in (lines 728-743).
\<close>

definition default_parameter ::
  "pyenv \<Rightarrow> model option \<Rightarrow> (model_parameters \<Rightarrow> real) \<Rightarrow> real option \<Rightarrow> real"
where
  "default_parameter env m field v =
     (case v of
        Some x \<Rightarrow> x
      | None \<Rightarrow> (case m of Some mm \<Rightarrow> field (parameters mm) | None \<Rightarrow> field (PARAMETERS env)))"

text \<open>
  \<open>(a - b).days\<close> for a timestamp \<open>a\<close> and a timestamp \<open>b\<close> that may be \<open>NaT\<close> (then the
  difference is \<open>NaT\<close>, whose \<open>days\<close> is \<open>nan\<close>).
\<close>

definition days_between :: "int \<Rightarrow> int option \<Rightarrow> pyval" where
  "days_between a b = (case b of Some d \<Rightarrow> PyInt (a - d) | None \<Rightarrow> PyNaN)"

text \<open>
  One variant of \<open>getMaturityDate\<close> (lines 789-801 for the observed heading, 811-822 for
  the predicted heading): the rows of the weather on or after the anchor date (none when
  the anchor is \<open>NaT\<close>), the cumulative adjusted thermal days, the index nearest to
  \<open>daysGF\<close>, and from the date at that index the three results: maturity date, days from
  sowing to maturity, days from the anchor to maturity. \<open>.loc\<close> raises \<open>KeyError\<close> for an
  index that is no row.
\<close>

type_synonym maturity = "int \<times> pyval \<times> pyval"

definition maturity_variant ::
  "pyenv \<Rightarrow> wrow list \<Rightarrow> int option \<Rightarrow> int option \<Rightarrow> real \<Rightarrow> real \<Rightarrow> real \<Rightarrow> real \<Rightarrow>
   pyexn + maturity"
where
  "maturity_variant env w anchor sowing_date threshold scale rate daysGF =
     (let df_tmp = filter (\<lambda>row. case anchor of Some a \<Rightarrow> Date row \<ge> a | None \<Rightarrow> False) w;
          TAdjDay = estimate_TAdjDay env (map TAVG df_tmp) threshold scale rate;
          cTAdjDays = cumsum TAdjDay
      in case np_argmin (map (\<lambda>c. \<bar>c - daysGF\<bar>) cTAdjDays) of
           Inl err \<Rightarrow> Inl err
         | Inr n_index \<Rightarrow>
             (if n_index < length df_tmp then
                (let d = Date (df_tmp ! n_index)
                 in Inr (d, days_between d sowing_date, days_between d anchor))
              else Inl ''KeyError: index not in the weather rows''))"

text \<open>
  A date attribute as \<open>getMaturityDate\<close> reads it (lines 756-784): \<open>Inr None\<close> when it is
  absent or missing, the timestamp (which may be \<open>NaT\<close>) otherwise, or the exception that
  \<open>pd.to_datetime\<close> raises.
\<close>

definition read_date :: "pyenv \<Rightarrow> pyval option \<Rightarrow> pyexn + int option option" where
  "read_date env a =
     (case a of
        None \<Rightarrow> Inr None
      | Some v \<Rightarrow>
          (if date_missing v then Inr None
           else (case to_datetime_ymd env v of Inl err \<Rightarrow> Inl err | Inr d \<Rightarrow> Inr (Some d))))"

text \<open>The handler of \<open>getMaturityDate\<close> (lines 828-830) and the \<open>return\<close> of line 834.\<close>

definition getMaturityDate_except ::
  "pyexn \<Rightarrow> maturity option \<Rightarrow> maturity option \<Rightarrow> site \<Rightarrow>
   (maturity option \<times> maturity option) option \<times> site"
where
  "getMaturityDate_except err H pH self =
     (Some (H, pH),
      append_error (''Estimating maturity date from weather using TAdjDays. Error: '' @ err) self)"

text \<open>
  \<open>Site.getMaturityDate\<close> (lines 715-834). The result \<open>None\<close> is the bare \<open>return\<close> of lines
  746 and 762; otherwise the pair holds, for the observed and for the predicted heading,
  the three results of the variant or \<open>None\<close> for three \<open>None\<close>s.
\<close>

definition getMaturityDate ::
  "pyenv \<Rightarrow> model option \<Rightarrow> real option \<Rightarrow> real option \<Rightarrow> real option \<Rightarrow> real option \<Rightarrow> site \<Rightarrow>
   (maturity option \<times> maturity option) option \<times> site"
where
  "getMaturityDate env m threshold scale rate daysGF self =
     (let daysGF' = default_parameter env m DAYS_GRAIN_FILLING daysGF;
          threshold' = default_parameter env m TDAYS_THRESHOLD_MATURITY threshold;
          scale' = default_parameter env m TDAYS_SCALE_MATURITY scale;
          rate' = default_parameter env m TDAYS_RATE_MATURITY rate
      in
      case weather self of
        None \<Rightarrow> (None, self)
      | Some w \<Rightarrow>
          (if date_missing (case attributes self ''sowing'' of None \<Rightarrow> PyNone | Some v \<Rightarrow> v)
           then (None, self)
           else
             (case read_date env (attributes self ''sowing'') of
                Inl err \<Rightarrow> getMaturityDate_except err None None self
              | Inr None \<Rightarrow> (None, self)
              | Inr (Some sowing_date) \<Rightarrow>
                  (case read_date env (attributes self ''heading'') of
                     Inl err \<Rightarrow> getMaturityDate_except err None None self
                   | Inr heading_date \<Rightarrow>
                       (case read_date env (attributes self ''PredHeading'') of
                          Inl err \<Rightarrow> getMaturityDate_except err None None self
                        | Inr pred_heading_date \<Rightarrow>
                            (case
                               (case heading_date of
                                  None \<Rightarrow> Inr None
                                | Some hdate \<Rightarrow>
                                    (case maturity_variant env w hdate sowing_date threshold'
                                            scale' rate' daysGF' of
                                       Inl err \<Rightarrow> Inl err
                                     | Inr v \<Rightarrow> Inr (Some v)))
                             of
                               Inl err \<Rightarrow> getMaturityDate_except err None None self
                             | Inr H \<Rightarrow>
                                 (case pred_heading_date of
                                    None \<Rightarrow> (Some (H, None), self)
                                  | Some pdate \<Rightarrow>
                                      (case maturity_variant env w pdate sowing_date threshold'
                                              scale' rate' daysGF' of
                                         Inl err \<Rightarrow> getMaturityDate_except err H None self
                                       | Inr v \<Rightarrow> (Some (H, Some v), self)))))))))"

text \<open>
  The six attributes that \<open>getEstimatedMaturity\<close> stores (lines 376-382), three for each
  variant; \<open>str(None).split(' ')[0]\<close> is the string \<open>'None'\<close>.
\<close>

definition set_maturity_attrs :: "pyenv \<Rightarrow> string \<Rightarrow> string \<Rightarrow> maturity option \<Rightarrow> site \<Rightarrow> site" where
  "set_maturity_attrs env h hm v self =
     self\<lparr>attributes := (attributes self)
       (''PredMaturity_'' @ h \<mapsto> (case v of None \<Rightarrow> PyStr ''None'' | Some (d, dm, dh) \<Rightarrow> PyStr (date_str env d)),
        ''PredDays_'' @ hm \<mapsto> (case v of None \<Rightarrow> PyNone | Some (d, dm, dh) \<Rightarrow> dh),
        ''PredDaysToMaturity_'' @ h \<mapsto> (case v of None \<Rightarrow> PyNone | Some (d, dm, dh) \<Rightarrow> dm))\<rparr>"

text \<open>
  \<open>Site.getEstimatedMaturity\<close> (lines 358-386). Unpacking the \<open>None\<close> that
  \<open>getMaturityDate\<close> returns raises \<open>TypeError\<close> inside the \<open>try\<close>.
\<close>

definition getEstimatedMaturity ::
  "pyenv \<Rightarrow> model option \<Rightarrow> real option \<Rightarrow> real option \<Rightarrow> real option \<Rightarrow> real option \<Rightarrow> site \<Rightarrow> site"
where
  "getEstimatedMaturity env m threshold scale rate daysGF self =
     (if (case attributes self ''sowing'' of None \<Rightarrow> False | Some s \<Rightarrow> date_invalid s) then self
      else
        try_except
          (\<lambda>self0.
             case getMaturityDate env m threshold scale rate daysGF self0 of
               (None, self1) \<Rightarrow> (Some ''cannot unpack non-iterable NoneType object'', self1)
             | (Some (H, pH), self1) \<Rightarrow>
                 (None, set_maturity_attrs env ''pH'' ''pHM'' pH
                          (set_maturity_attrs env ''H'' ''HM'' H self1)))
          ''Estimating Maturity date. Error: '' self)"

section \<open>Period masks\<close>

text \<open>
  The local variables of \<open>getFilters\<close> that its \<open>try\<close> block assigns. \<open>masks\<close> holds the
  nineteen filters \<open>_mask_SE\<close>, ..., \<open>_mask_dDAS_pH\<close> under the suffix of their names, a
  filter that is \<open>None\<close> being absent (all of them are \<open>None\<close> before the \<open>try\<close>); a filter
  is the list of its truth values, one for each row of the weather.
  \<open>pred_emergence_date\<close> has no value before its first assignment, and reading it then
  raises \<open>UnboundLocalError\<close>.
\<close>

record locals =
  masks :: "string \<rightharpoonup> bool list"
  pred_emergence_date :: "pyval option"
  pred_heading_date :: pyval
  pred_maturity_date :: pyval


text \<open>
  The operand of a comparison with the \<open>Date\<close> column. pandas parses a string, and raises
  \<open>TypeError\<close> for \<open>None\<close>, a number or a boolean.
\<close>

definition column_operand :: "pyenv \<Rightarrow> pyval \<Rightarrow> pyexn + int option" where
  "column_operand env v =
     (case v of
        PyStr s \<Rightarrow> as_timestamp env s
      | _ \<Rightarrow> Inl ''Invalid comparison between dtype=datetime64[ns] and the value'')"

text \<open>
  \<open>((self.weather['Date'] > a) & (self.weather['Date'] <= b))\<close>; a comparison with \<open>NaT\<close>
  is false.
\<close>

definition between :: "pyenv \<Rightarrow> wrow list \<Rightarrow> pyval \<Rightarrow> pyval \<Rightarrow> pyexn + bool list" where
  "between env w a b =
     (case column_operand env a of
        Inl err \<Rightarrow> Inl err
      | Inr ta \<Rightarrow>
          (case column_operand env b of
             Inl err \<Rightarrow> Inl err
           | Inr tb \<Rightarrow>
               Inr (map (\<lambda>row. (case ta of Some x \<Rightarrow> x < Date row | None \<Rightarrow> False)
                              \<and> (case tb of Some y \<Rightarrow> Date row \<le> y | None \<Rightarrow> False)) w)))"












text \<open>The decimal digits of an integer, as \<open>'{}'.format\<close> writes it.\<close>

definition digit_char :: "nat \<Rightarrow> char" where
  "digit_char n = ''0123456789'' ! (n mod 10)"












section \<open>Assertions about statements\<close>

text \<open>
  \<open>hoare P f Q E\<close>: started in a state where \<open>P\<close> holds, the statement \<open>f\<close> ends in a state
  where \<open>Q\<close> holds when it completes and where \<open>E\<close> holds when it raises.
\<close>

definition hoare :: "('s \<Rightarrow> bool) \<Rightarrow> 's stmt \<Rightarrow> ('s \<Rightarrow> bool) \<Rightarrow> ('s \<Rightarrow> bool) \<Rightarrow> bool" where
  "hoare P f Q E =
     (\<forall>st. P st \<longrightarrow> (case f st of (None, st') \<Rightarrow> Q st' | (Some err, st') \<Rightarrow> E st'))"






section \<open>Example data\<close>

definition example_parameters :: model_parameters where
  "example_parameters =
     \<lparr>DAP = 35, CONST_DAYHR_AS = 10.8, GDD_Required_to_EmergenceDate = 180,
      CROP_OPTIMUM_TEMPERATURE = 18, DAYS_GRAIN_FILLING = 40,
      TDAYS_THRESHOLD_MATURITY = 45, TDAYS_SCALE_MATURITY = 0.002,
      TDAYS_RATE_MATURITY = 1, RUE = Some 3, YIELD_FACTOR = Some 0.8\<rparr>"

definition example_model :: model where
  "example_model = \<lparr>parameters = example_parameters\<rparr>"

text \<open>
  A concrete environment for the examples: dates are written \<open>YYYY-MM-DD\<close> and counted in
  days since 1970-01-01 (proleptic Gregorian calendar).
\<close>

fun position_in :: "char \<Rightarrow> string \<Rightarrow> nat \<Rightarrow> nat option" where
  "position_in c [] n = None"
| "position_in c (d # ds) n = (if c = d then Some n else position_in c ds (Suc n))"

definition digit_of :: "char \<Rightarrow> nat option" where
  "digit_of c = position_in c ''0123456789'' 0"

fun digits_val :: "string \<Rightarrow> nat \<Rightarrow> nat option" where
  "digits_val [] acc = Some acc"
| "digits_val (c # cs) acc =
     (case digit_of c of None \<Rightarrow> None | Some d \<Rightarrow> digits_val cs (10 * acc + d))"

definition days_from_civil :: "int \<Rightarrow> int \<Rightarrow> int \<Rightarrow> int" where
  "days_from_civil y0 mth d =
     (let y = (if mth \<le> 2 then y0 - 1 else y0);
          era = y div 400;
          yoe = y - era * 400;
          doy = (153 * (if mth > 2 then mth - 3 else mth + 9) + 2) div 5 + d - 1;
          doe = yoe * 365 + yoe div 4 - yoe div 100 + doy
      in era * 146097 + doe - 719468)"

definition civil_from_days :: "int \<Rightarrow> int \<times> int \<times> int" where
  "civil_from_days z0 =
     (let z = z0 + 719468;
          era = z div 146097;
          doe = z - era * 146097;
          yoe = (doe - doe div 1460 + doe div 36524 - doe div 146096) div 365;
          doy = doe - (365 * yoe + yoe div 4 - yoe div 100);
          mp = (5 * doy + 2) div 153;
          d = doy - (153 * mp + 2) div 5 + 1;
          mth = (if mp < 10 then mp + 3 else mp - 9);
          y = yoe + era * 400
      in (if mth \<le> 2 then y + 1 else y, mth, d))"

definition parse_iso :: "string \<Rightarrow> int option" where
  "parse_iso s =
     (if length s = 10 \<and> s ! 4 = CHR ''-'' \<and> s ! 7 = CHR ''-'' then
        (case (digits_val (take 4 s) 0, digits_val (take 2 (drop 5 s)) 0,
               digits_val (drop 8 s) 0) of
           (Some y, Some mth, Some d) \<Rightarrow>
             (if 1 \<le> mth \<and> mth \<le> 12 \<and> 1 \<le> d \<and> d \<le> 31
              then Some (days_from_civil (int y) (int mth) (int d)) else None)
         | _ \<Rightarrow> None)
      else None)"

definition iso_str :: "int \<Rightarrow> string" where
  "iso_str z =
     (case civil_from_days z of
        (y, mth, d) \<Rightarrow>
          [digit_char (nat y div 1000), digit_char (nat y div 100), digit_char (nat y div 10),
           digit_char (nat y), CHR ''-'', digit_char (nat mth div 10), digit_char (nat mth),
           CHR ''-'', digit_char (nat d div 10), digit_char (nat d)])"

definition iso_datetime :: "pyval \<Rightarrow> pyexn + int option" where
  "iso_datetime v =
     (case v of
        PyStr s \<Rightarrow>
          (case parse_iso s of
             Some d \<Rightarrow> Inr (Some d)
           | None \<Rightarrow> Inl (''Unknown datetime string format: '' @ s))
      | _ \<Rightarrow> Inl ''Unknown datetime string format'')"

definition iso_date_range :: "pyval \<Rightarrow> pyval \<Rightarrow> pyexn + int list" where
  "iso_date_range s e =
     (case (iso_datetime s, iso_datetime e) of
        (Inr (Some a), Inr (Some b)) \<Rightarrow> Inr [a..b]
      | (Inl err, _) \<Rightarrow> Inl err
      | (_, Inl err) \<Rightarrow> Inl err
      | _ \<Rightarrow> Inl ''Neither start nor end can be NaT'')"

definition example_env :: pyenv where
  "example_env =
     \<lparr>to_datetime = iso_datetime, to_datetime_ymd = iso_datetime,
      as_timestamp = (\<lambda>s. iso_datetime (PyStr s)),
      date_str = iso_str, date_range = iso_date_range, PARAMETERS = example_parameters,
      estimate_TAdjDay = (\<lambda>tavg threshold scale rate. map (\<lambda>t. min threshold (rate * t)) tavg),
      calculateNDVI_HM =
        (\<lambda>tt ndvimax. Inr (Some (map (\<lambda>t. case t of Fin r \<Rightarrow> ndvimax * (1 - r / 2) | _ \<Rightarrow> 0) tt)))\<rparr>"

definition sawyt_site :: site where
  "sawyt_site = init (PyInt 1) (PyInt 7) [''Nursery'' \<mapsto> PyStr ''SAWYT''] Map.empty"

definition eswyt_site :: site where
  "eswyt_site = init (PyInt 2) (PyInt 7) [''Nursery'' \<mapsto> PyStr ''ESWYT''] Map.empty"

definition emergence_site :: site where
  "emergence_site =
     (init (PyInt 3) (PyInt 7) [''sowing'' \<mapsto> PyStr ''2015-11-15''] Map.empty)
       \<lparr>pheno_dates := Some [16754, 16755, 16756, 16757]\<rparr>"

definition yield_site :: site where
  "yield_site =
     init (PyInt 4) (PyInt 7)
       [''sumGPP_HM'' \<mapsto> PyFloat 1.234, ''sumGPP_pHM'' \<mapsto> PyNone,
        ''sumGPP_HpM'' \<mapsto> PyFloat 10, ''sumGPP_pHpM'' \<mapsto> PyNone] Map.empty"

definition gpp_site :: site where
  "gpp_site =
     (init (PyInt 5) (PyInt 7) Map.empty Map.empty)
       \<lparr>norm_tt := [''Norm_TT_HM'' \<mapsto> None],
        series := [''SolRad_EH'' \<mapsto> Some [20, 20], ''PRFT_EH'' \<mapsto> Some [1, 1],
                   ''iPAR_EH'' \<mapsto> Some [0.5, 0.5],
                   ''SolRad_pEH'' \<mapsto> None, ''SolRad_EpH'' \<mapsto> None, ''SolRad_pEpH'' \<mapsto> None,
                   ''SolRad_HM'' \<mapsto> None, ''SolRad_pHM'' \<mapsto> None, ''SolRad_HpM'' \<mapsto> None,
                   ''SolRad_pHpM'' \<mapsto> None]\<rparr>"

definition gpp_site_HM :: site where
  "gpp_site_HM = gpp_site\<lparr>norm_tt := [''Norm_TT_HM'' \<mapsto> Some [Fin 0, Fin 1]]\<rparr>"

definition example_weather :: "wrow list" where
  "example_weather =
     map (\<lambda>d. \<lparr>Date = d, TMIN = 10, TMAX = 25, TAVG = 17, SolRad = 20, PCP = 0\<rparr>) [16754..16763]"

definition maturity_site :: site where
  "maturity_site =
     (init (PyInt 6) (PyInt 7)
        [''sowing'' \<mapsto> PyStr ''2015-11-15'', ''heading'' \<mapsto> PyStr ''2017-11-20'',
         ''PredHeading'' \<mapsto> PyStr ''2015-11-18''] Map.empty)
       \<lparr>weather := Some example_weather\<rparr>"

definition maturity_site_ok :: site where
  "maturity_site_ok =
     maturity_site\<lparr>attributes := (attributes maturity_site)(''heading'' \<mapsto> PyStr ''2015-11-17'')\<rparr>"






section \<open>Theorems\<close>

lemma py_int_nonneg: "0 \<le> x \<Longrightarrow> py_int x = \<lfloor>x\<rfloor>"
  by (simp add: py_int_def)

text \<open>
  Claim C3. A day length is a number of hours of one day, at most 24, and the boundary
  \<open>CONST_DAYHR_AS\<close> between the two regimes is 10.8 hours in the method's documentation;
  the statement takes any boundary of at most 12 hours. At a day length equal to the
  boundary (and above it) \<open>getDaysToHeading\<close> takes the \<open>>=\<close> regression, for the SAWYT
  coefficients and for the others, and below it the \<open><\<close> regression; the value returned
  is the floor of the regression taken. (\<open>int()\<close> truncates toward zero; on these day
  lengths no regression is negative.)
\<close>

theorem getDaysToHeading_boundary_floor:
  fixes self :: site and m :: model and dayHR :: real
  defines "c \<equiv> CONST_DAYHR_AS (parameters m)"
  defines "sawyt \<equiv> (attributes self ''Nursery'' = Some (PyStr ''SAWYT''))"
  shows "(sawyt \<and> c \<le> 24 \<longrightarrow> getDaysToHeading self (Some m) c = Inr \<lfloor>87.38 - 2.36 * c\<rfloor>)
       \<and> (\<not> sawyt \<and> c \<le> 24 \<longrightarrow> getDaysToHeading self (Some m) c = Inr \<lfloor>115.36 - 3.87 * c\<rfloor>)
       \<and> (sawyt \<and> c \<le> dayHR \<and> dayHR \<le> 24 \<longrightarrow>
            getDaysToHeading self (Some m) dayHR = Inr \<lfloor>87.38 - 2.36 * dayHR\<rfloor>)
       \<and> (\<not> sawyt \<and> c \<le> dayHR \<and> dayHR \<le> 24 \<longrightarrow>
            getDaysToHeading self (Some m) dayHR = Inr \<lfloor>115.36 - 3.87 * dayHR\<rfloor>)
       \<and> (sawyt \<and> dayHR < c \<and> c \<le> 12 \<longrightarrow>
            getDaysToHeading self (Some m) dayHR = Inr \<lfloor>617.68 - 51.406 * dayHR\<rfloor>)
       \<and> (\<not> sawyt \<and> dayHR < c \<and> c \<le> 12 \<longrightarrow>
            getDaysToHeading self (Some m) dayHR = Inr \<lfloor>491.27 - 38.62 * dayHR\<rfloor>)"
  unfolding c_def sawyt_def
  by (auto simp add: getDaysToHeading_def py_int_def)

theorem getDaysToHeading_boundary_floor_witness:
  "getDaysToHeading sawyt_site (Some example_model) 10.8 = Inr 61
   \<and> getDaysToHeading eswyt_site (Some example_model) 10.8 = Inr 73
   \<and> getDaysToHeading sawyt_site (Some example_model) 10 = Inr 103
   \<and> getDaysToHeading eswyt_site (Some example_model) 10 = Inr 105
   \<and> getDaysToHeading eswyt_site (Some example_model) 12 = Inr 68"
proof -
  have c: "CONST_DAYHR_AS (parameters example_model) = 10.8"
    by (simp add: example_model_def example_parameters_def)
  have s: "attributes sawyt_site ''Nursery'' = Some (PyStr ''SAWYT'')"
    by (simp add: sawyt_site_def init_def)
  have e: "attributes eswyt_site ''Nursery'' \<noteq> Some (PyStr ''SAWYT'')"
    by (simp add: eswyt_site_def init_def)
  have f: "\<lfloor>87.38 - 2.36 * (10.8::real)\<rfloor> = 61" "\<lfloor>115.36 - 3.87 * (10.8::real)\<rfloor> = 73"
    "\<lfloor>617.68 - 51.406 * (10::real)\<rfloor> = 103" "\<lfloor>491.27 - 38.62 * (10::real)\<rfloor> = 105"
    "\<lfloor>115.36 - 3.87 * (12::real)\<rfloor> = 68"
    by simp_all
  from getDaysToHeading_boundary_floor [of sawyt_site example_model 10]
    getDaysToHeading_boundary_floor [of eswyt_site example_model 10]
    getDaysToHeading_boundary_floor [of eswyt_site example_model 12]
  show ?thesis using c s e f by simp
qed

lemma argmin_less: "xs \<noteq> [] \<Longrightarrow> argmin xs < length xs"
  by (induction xs rule: argmin.induct) (auto simp add: Let_def)

lemma argmin_le: "j < length xs \<Longrightarrow> xs ! argmin xs \<le> xs ! j"
proof (induction xs arbitrary: j rule: argmin.induct)
  case 1
  then show ?case by simp
next
  case (2 x)
  then show ?case by simp
next
  case (3 x y ys)
  show ?case
  proof (cases j)
    case 0
    then show ?thesis by (simp add: Let_def)
  next
    case (Suc k)
    with "3.prems" have "k < length (y # ys)" by simp
    from "3.IH" [OF this] have "(y # ys) ! argmin (y # ys) \<le> (y # ys) ! k" .
    with Suc show ?thesis by (auto simp add: Let_def)
  qed
qed

lemma argmin_first: "j < argmin xs \<Longrightarrow> xs ! argmin xs < xs ! j"
proof (induction xs arbitrary: j rule: argmin.induct)
  case 1
  then show ?case by simp
next
  case (2 x)
  then show ?case by simp
next
  case (3 x y ys)
  let ?a = "argmin (y # ys)"
  from "3.prems" have nz: "\<not> x \<le> (y # ys) ! ?a" and am: "argmin (x # y # ys) = Suc ?a"
    by (auto simp add: Let_def split: if_splits)
  show ?case
  proof (cases j)
    case 0
    with nz am show ?thesis by simp
  next
    case (Suc k)
    with "3.prems" am have "k < ?a" by simp
    from "3.IH" [OF this] Suc am show ?thesis by simp
  qed
qed

text \<open>
  Claim C4: for a non-empty array \<open>cGDD\<close> the index chosen by \<open>getEmergenceDate\<close> lies in
  the array, no other index is closer to the requirement, and every lower index is
  strictly farther from it (of two equally close indices the lower one is chosen); the
  date returned is the entry of \<open>pheno_dates\<close> at that index.
\<close>

theorem getEmergenceDate_argmin_first:
  fixes cGDD :: "real list" and GDDreq :: real
  assumes "cGDD \<noteq> []"
  defines "idx \<equiv> emergence_index cGDD GDDreq"
  shows "idx < length cGDD
       \<and> (\<forall>j < length cGDD. \<bar>cGDD ! idx - GDDreq\<bar> \<le> \<bar>cGDD ! j - GDDreq\<bar>)
       \<and> (\<forall>j < idx. \<bar>cGDD ! idx - GDDreq\<bar> < \<bar>cGDD ! j - GDDreq\<bar>)
       \<and> (\<forall>ds. pheno_dates self = Some ds \<and> idx < length ds \<longrightarrow>
             getEmergenceDate env (Some m) (Some cGDD) (Some GDDreq) self
               = (Some (date_str env (ds ! idx)), self))"
proof -
  let ?d = "map (\<lambda>c. \<bar>c - GDDreq\<bar>) cGDD"
  from assms(1) have ne: "?d \<noteq> []" by simp
  have i: "idx = argmin ?d" by (simp add: idx_def emergence_index_def)
  from argmin_less [OF ne] have lt: "idx < length cGDD" by (simp add: i)
  have le: "\<bar>cGDD ! idx - GDDreq\<bar> \<le> \<bar>cGDD ! j - GDDreq\<bar>" if "j < length cGDD" for j
  proof -
    from that have "j < length ?d" by simp
    from argmin_le [OF this] that lt show ?thesis by (simp add: i)
  qed
  have first: "\<bar>cGDD ! idx - GDDreq\<bar> < \<bar>cGDD ! j - GDDreq\<bar>" if "j < idx" for j
  proof -
    from that have "j < argmin ?d" by (simp add: i)
    from argmin_first [OF this] that lt show ?thesis by (simp add: i)
  qed
  have ret: "getEmergenceDate env (Some m) (Some cGDD) (Some GDDreq) self
               = (Some (date_str env (ds ! idx)), self)"
    if "pheno_dates self = Some ds \<and> idx < length ds" for ds
    using that assms(1) by (simp add: getEmergenceDate_def Let_def idx_def)
  from lt le first ret show ?thesis by blast
qed

theorem getEmergenceDate_argmin_first_witness:
  "emergence_index [160, 170, 190, 200] 180 = 1
   \<and> fst (getEmergenceDate example_env (Some example_model) (Some [160, 170, 190, 200])
        (Some 180) emergence_site) = Some ''2015-11-16''"
proof -
  have ne: "[160, 170, 190, 200 :: real] \<noteq> []" by simp
  have i: "emergence_index [160, 170, 190, 200] 180 = 1"
    by (simp add: emergence_index_def)
  have p: "pheno_dates emergence_site = Some [16754, 16755, 16756, 16757]"
    by (simp add: emergence_site_def)
  have d: "date_str example_env 16755 = ''2015-11-16''" by code_simp
  from getEmergenceDate_argmin_first [OF ne, of 180 emergence_site example_env example_model]
  have "getEmergenceDate example_env (Some example_model) (Some [160, 170, 190, 200])
          (Some 180) emergence_site
        = (Some (date_str example_env ([16754, 16755, 16756, 16757] ! 1)), emergence_site)"
    using i p by simp
  with i d show ?thesis by simp
qed

lemma nanmin_Min: assumes "g \<noteq> []" shows "nanmin g = Inr (Min (set g))"
proof (cases g)
  case Nil
  with assms show ?thesis by simp
next
  case (Cons x xs)
  then show ?thesis using Min.set_eq_fold [of x xs] by (simp add: nanmin_def)
qed

lemma nanmax_Max: assumes "g \<noteq> []" shows "nanmax g = Inr (Max (set g))"
proof (cases g)
  case Nil
  with assms show ?thesis by simp
next
  case (Cons x xs)
  then show ?thesis using Max.set_eq_fold [of x xs] by (simp add: nanmax_def)
qed

lemma normalize_tt_eq:
  "g \<noteq> [] \<Longrightarrow> normalize_tt g = Inr (map (\<lambda>x. np_div (x - Min (set g)) (Max (set g) - Min (set g))) g)"
  by (simp add: normalize_tt_def nanmin_Min nanmax_Max)

lemma strict_Min: "sorted_wrt (<) (g::real list) \<Longrightarrow> g \<noteq> [] \<Longrightarrow> Min (set g) = hd g"
  by (cases g) (auto intro!: Min_eqI dest: less_imp_le)

lemma strict_Max: "sorted_wrt (<) (g::real list) \<Longrightarrow> g \<noteq> [] \<Longrightarrow> Max (set g) = last g"
proof (induction g)
  case Nil
  then show ?case by simp
next
  case (Cons x xs)
  show ?case
  proof (cases "xs = []")
    case True
    then show ?thesis by simp
  next
    case False
    with Cons have "Max (set xs) = last xs" by simp
    moreover from Cons.prems False have "x < last xs" by (auto simp add: last_in_set)
    ultimately show ?thesis using False by (simp add: max_def)
  qed
qed

lemma strict_hd_less_last:
  "sorted_wrt (<) (g::real list) \<Longrightarrow> 2 \<le> length g \<Longrightarrow> hd g < last g"
  by (cases g) (auto simp add: last_in_set)

lemma np_div_self: "a \<noteq> 0 \<Longrightarrow> np_div a a = Fin 1"
  by (simp add: np_div_def)

lemma try_ok: "body self = (None, self') \<Longrightarrow> try_except body p self = self'"
  by (simp add: try_except_def)

lemma normalize_tt_spec: assumes "g \<noteq> []" shows "normalize_tt g = Inr (spec_normalize g)"
proof -
  have "np_div (x - Min (set g)) (Max (set g) - Min (set g))
        = (if Max (set g) = Min (set g) then NaN
           else Fin ((x - Min (set g)) / (Max (set g) - Min (set g))))" if "x \<in> set g" for x
  proof (cases "Max (set g) = Min (set g)")
    case True
    from that have "Min (set g) \<le> x" "x \<le> Max (set g)" by simp_all
    with True have "x = Min (set g)" by simp
    with True show ?thesis by (simp add: np_div_def)
  next
    case False
    then show ?thesis by (simp add: np_div_def)
  qed
  then show ?thesis using assms by (simp add: normalize_tt_eq spec_normalize_def)
qed

lemma norm_assign_ok:
  "c \<noteq> Some [] \<Longrightarrow>
   norm_assign name c self =
     (None, self\<lparr>norm_tt := (norm_tt self)(name \<mapsto> map_option spec_normalize c)\<rparr>)"
  by (cases c) (simp_all add: norm_assign_def normalize_tt_spec)

lemma getNormalizeThermalTime_ok:
  assumes "cGDD_EH \<noteq> Some []" "cGDD_pEH \<noteq> Some []" "cGDD_EpH \<noteq> Some []" "cGDD_pEpH \<noteq> Some []"
    "cGDD_HM \<noteq> Some []" "cGDD_pHM \<noteq> Some []" "cGDD_pHpM \<noteq> Some []" "cGDD_HpM \<noteq> Some []"
  defines "nv \<equiv> map_option spec_normalize"
  shows "getNormalizeThermalTime cGDD_EH cGDD_pEH cGDD_EpH cGDD_pEpH cGDD_HM cGDD_pHM cGDD_pHpM cGDD_HpM self
    = self\<lparr>norm_tt := (norm_tt self)(''Norm_TT_EH'' \<mapsto> nv cGDD_EH, ''Norm_TT_EpH'' \<mapsto> nv cGDD_EpH,
         ''Norm_TT_pEH'' \<mapsto> nv cGDD_pEH, ''Norm_TT_pEpH'' \<mapsto> nv cGDD_pEpH,
         ''Norm_TT_HM'' \<mapsto> nv cGDD_HM, ''Norm_TT_pHM'' \<mapsto> nv cGDD_pHM,
         ''Norm_TT_HpM'' \<mapsto> nv cGDD_HpM, ''Norm_TT_pHpM'' \<mapsto> nv cGDD_pHpM)\<rparr>"
  using assms(1-8)
  by (simp add: getNormalizeThermalTime_def then_do_def try_except_def norm_assign_ok nv_def)

lemma spec_normalize_ends:
  assumes "sorted_wrt (<) g" "2 \<le> length g"
  shows "hd (spec_normalize g) = Fin 0 \<and> last (spec_normalize g) = Fin 1"
proof -
  from assms(2) have ne: "g \<noteq> []" by auto
  from strict_Min [OF assms(1) ne] strict_Max [OF assms(1) ne] strict_hd_less_last [OF assms]
  have m: "Min (set g) = hd g" "Max (set g) = last g" "hd g < last g" by simp_all
  from ne have "hd (spec_normalize g) = Fin 0" using m
    by (simp add: spec_normalize_def hd_map)
  moreover from ne have "last (spec_normalize g) = Fin 1" using m
    by (simp add: spec_normalize_def last_map)
  ultimately show ?thesis by simp
qed

lemma spec_normalize_degenerate:
  "Max (set g) = Min (set g) \<Longrightarrow> spec_normalize g = replicate (length g) NaN"
  by (simp add: spec_normalize_def map_replicate_const)

text \<open>
  Claim C5, as the code has it. When every series passed is \<open>None\<close> or non-empty,
  \<open>getNormalizeThermalTime\<close> stores for each of them \<open>(g - min(g)) / (max(g) - min(g))\<close>
  elementwise (\<open>None\<close> for \<open>None\<close>) and records no error; when the maximum equals the
  minimum every stored value is \<open>NaN\<close>. For a strictly increasing series of at least two
  values the first normalized value is 0 and the last is 1.
\<close>

theorem getNormalizeThermalTime_normalizes:
  fixes self :: site
  assumes "cGDD_EH \<noteq> Some []" "cGDD_pEH \<noteq> Some []" "cGDD_EpH \<noteq> Some []" "cGDD_pEpH \<noteq> Some []"
    "cGDD_HM \<noteq> Some []" "cGDD_pHM \<noteq> Some []" "cGDD_pHpM \<noteq> Some []" "cGDD_HpM \<noteq> Some []"
  defines "nv \<equiv> map_option spec_normalize"
  defines "self' \<equiv> getNormalizeThermalTime cGDD_EH cGDD_pEH cGDD_EpH cGDD_pEpH cGDD_HM cGDD_pHM
                      cGDD_pHpM cGDD_HpM self"
  shows "norm_tt self' ''Norm_TT_EH'' = Some (nv cGDD_EH)
       \<and> norm_tt self' ''Norm_TT_pEH'' = Some (nv cGDD_pEH)
       \<and> norm_tt self' ''Norm_TT_EpH'' = Some (nv cGDD_EpH)
       \<and> norm_tt self' ''Norm_TT_pEpH'' = Some (nv cGDD_pEpH)
       \<and> norm_tt self' ''Norm_TT_HM'' = Some (nv cGDD_HM)
       \<and> norm_tt self' ''Norm_TT_pHM'' = Some (nv cGDD_pHM)
       \<and> norm_tt self' ''Norm_TT_pHpM'' = Some (nv cGDD_pHpM)
       \<and> norm_tt self' ''Norm_TT_HpM'' = Some (nv cGDD_HpM)
       \<and> errors self' = errors self
       \<and> (\<forall>g. Max (set g) = Min (set g) \<longrightarrow> spec_normalize g = replicate (length g) NaN)
       \<and> (\<forall>g. sorted_wrt (<) g \<and> 2 \<le> length g \<longrightarrow>
             hd (spec_normalize g) = Fin 0 \<and> last (spec_normalize g) = Fin 1)"
  unfolding self'_def nv_def
  by (simp add: getNormalizeThermalTime_ok [OF assms(1-8)] spec_normalize_degenerate
      spec_normalize_ends)

theorem getNormalizeThermalTime_normalizes_witness:
  "norm_tt (getNormalizeThermalTime (Some [100, 150, 300]) None None None (Some [7, 7]) None None
         None emergence_site) ''Norm_TT_EH'' = Some (Some [Fin 0, Fin (1 / 4), Fin 1])
   \<and> norm_tt (getNormalizeThermalTime (Some [100, 150, 300]) None None None (Some [7, 7]) None None
         None emergence_site) ''Norm_TT_HM'' = Some (Some [NaN, NaN])
   \<and> errors (getNormalizeThermalTime (Some [100, 150, 300]) None None None (Some [7, 7]) None
         None None emergence_site) = []"
proof -
  have a: "spec_normalize [100, 150, 300] = [Fin 0, Fin (1 / 4), Fin 1]"
    by (simp add: spec_normalize_def)
  have b: "spec_normalize [7, 7] = [NaN, NaN]"
    by (simp add: spec_normalize_def)
  have e: "errors emergence_site = []"
    by (simp add: emergence_site_def init_def)
  from getNormalizeThermalTime_normalizes
    [of "Some [100, 150, 300]" None None None "Some [7, 7]" None None None emergence_site]
  show ?thesis using a b e by simp
qed

text \<open>
  Claim C5 as stated fails for a series of one value: it is strictly increasing, its
  maximum equals its minimum, and its only normalized value is \<open>NaN\<close>, not 0 or 1.
\<close>

theorem getNormalizeThermalTime_single_value:
  "sorted_wrt (<) [5 :: real]
   \<and> norm_tt (getNormalizeThermalTime None None None None (Some [5]) None None None emergence_site)
       ''Norm_TT_HM'' = Some (Some [NaN])"
  by (simp add: getNormalizeThermalTime_def then_do_def try_except_def norm_assign_def
      normalize_tt_def nanmin_def nanmax_def np_div_def)

lemma round_half_even_bound: "\<bar>of_int (round_half_even y) - y\<bar> \<le> 1 / 2"
  unfolding round_half_even_def Let_def by (auto; linarith)

lemma fmt_float_bound: "\<bar>fmt_float k x - x\<bar> \<le> 1 / (2 * 10 ^ k)"
proof -
  have "\<bar>fmt_float k x - x\<bar> = \<bar>of_int (round_half_even (x * 10 ^ k)) - x * 10 ^ k\<bar> / 10 ^ k"
    by (simp add: fmt_float_def field_simps abs_divide) 
  also have "\<dots> \<le> (1 / 2) / 10 ^ k"
    by (intro divide_right_mono round_half_even_bound) simp
  finally show ?thesis by simp
qed

lemma yield_assign_float:
  "attributes self gkey = Some (PyFloat x) \<Longrightarrow>
   yield_assign (Some y) gkey ykey self =
     (None, self\<lparr>attributes := (attributes self)(ykey \<mapsto> PyFloat (fmt_float 2 (x * y)))\<rparr>)"
  by (simp add: yield_assign_def yield_value_def)

lemma yield_assign_none:
  "attributes self gkey = Some PyNone \<Longrightarrow>
   yield_assign yf gkey ykey self =
     (None, self\<lparr>attributes := (attributes self)(ykey \<mapsto> PyNone)\<rparr>)"
  by (simp add: yield_assign_def)

lemma yield_assign_avail:
  "attributes self gkey = Some v \<Longrightarrow> v = PyNone \<or> (\<exists>x. v = PyFloat x) \<Longrightarrow>
   yield_assign (Some y) gkey ykey self =
     (None, self\<lparr>attributes := (attributes self)(ykey \<mapsto> rounded_yield y v)\<rparr>)"
  by (auto simp add: yield_assign_float yield_assign_none rounded_yield_def)

lemma getIPAR_yield_avail:
  assumes "attributes self ''sumGPP_HM'' = Some g1" "g1 = PyNone \<or> (\<exists>x. g1 = PyFloat x)"
    "attributes self ''sumGPP_pHM'' = Some g2" "g2 = PyNone \<or> (\<exists>x. g2 = PyFloat x)"
    "attributes self ''sumGPP_HpM'' = Some g3" "g3 = PyNone \<or> (\<exists>x. g3 = PyFloat x)"
    "attributes self ''sumGPP_pHpM'' = Some g4" "g4 = PyNone \<or> (\<exists>x. g4 = PyFloat x)"
  shows "getIPAR_yield (Some y) self =
     self\<lparr>attributes := (attributes self)(''SimYield'' \<mapsto> rounded_yield y g1, ''SimYield_pH'' \<mapsto> rounded_yield y g2,
        ''SimYield_pM'' \<mapsto> rounded_yield y g3, ''SimYield_pHpM'' \<mapsto> rounded_yield y g4)\<rparr>"
proof -
  let ?s1 = "self\<lparr>attributes := (attributes self)(''SimYield'' \<mapsto> rounded_yield y g1)\<rparr>"
  let ?s2 = "?s1\<lparr>attributes := (attributes ?s1)(''SimYield_pH'' \<mapsto> rounded_yield y g2)\<rparr>"
  let ?s3 = "?s2\<lparr>attributes := (attributes ?s2)(''SimYield_pM'' \<mapsto> rounded_yield y g3)\<rparr>"
  let ?s4 = "?s3\<lparr>attributes := (attributes ?s3)(''SimYield_pHpM'' \<mapsto> rounded_yield y g4)\<rparr>"
  have 1: "yield_assign (Some y) ''sumGPP_HM'' ''SimYield'' self = (None, ?s1)"
    by (rule yield_assign_avail [OF assms(1,2)])
  have "attributes ?s1 ''sumGPP_pHM'' = Some g2" using assms(3) by simp
  from yield_assign_avail [OF this assms(4)]
  have 2: "yield_assign (Some y) ''sumGPP_pHM'' ''SimYield_pH'' ?s1 = (None, ?s2)" .
  have "attributes ?s2 ''sumGPP_HpM'' = Some g3" using assms(5) by simp
  from yield_assign_avail [OF this assms(6)]
  have 3: "yield_assign (Some y) ''sumGPP_HpM'' ''SimYield_pM'' ?s2 = (None, ?s3)" .
  have "attributes ?s3 ''sumGPP_pHpM'' = Some g4" using assms(7) by simp
  from yield_assign_avail [OF this assms(8)]
  have 4: "yield_assign (Some y) ''sumGPP_pHpM'' ''SimYield_pHpM'' ?s3 = (None, ?s4)" .
  show ?thesis
    by (simp add: getIPAR_yield_def try_except_def then_do_def 1 2 [simplified] 3 [simplified] 4 [simplified])
qed

text \<open>
  Claim C6, as the code has it. When each of the four summed GPP attributes is a number or
  \<open>None\<close> and the yield factor is a number, \<open>getIPAR\<close> stores under \<open>SimYield\<close>,
  \<open>SimYield_pH\<close>, \<open>SimYield_pM\<close> and \<open>SimYield_pHpM\<close> the product of the variant's \<open>sumGPP\<close>
  with \<open>YIELD_FACTOR\<close> rounded to two decimals (at most 0.005 away from the product), and
  \<open>None\<close> where the \<open>sumGPP\<close> is \<open>None\<close>; no error is recorded.
\<close>

theorem getIPAR_yield_rounded:
  fixes self :: site and y :: real
  assumes "attributes self ''sumGPP_HM'' = Some g1" "g1 = PyNone \<or> (\<exists>x. g1 = PyFloat x)"
    "attributes self ''sumGPP_pHM'' = Some g2" "g2 = PyNone \<or> (\<exists>x. g2 = PyFloat x)"
    "attributes self ''sumGPP_HpM'' = Some g3" "g3 = PyNone \<or> (\<exists>x. g3 = PyFloat x)"
    "attributes self ''sumGPP_pHpM'' = Some g4" "g4 = PyNone \<or> (\<exists>x. g4 = PyFloat x)"
  defines "self' \<equiv> getIPAR_yield (Some y) self"
  shows "attributes self' ''SimYield'' = Some (rounded_yield y g1)
       \<and> attributes self' ''SimYield_pH'' = Some (rounded_yield y g2)
       \<and> attributes self' ''SimYield_pM'' = Some (rounded_yield y g3)
       \<and> attributes self' ''SimYield_pHpM'' = Some (rounded_yield y g4)
       \<and> errors self' = errors self
       \<and> rounded_yield y PyNone = PyNone
       \<and> (\<forall>x. rounded_yield y (PyFloat x) = PyFloat (fmt_float 2 (x * y))
              \<and> \<bar>fmt_float 2 (x * y) - x * y\<bar> \<le> 1 / 200)"
proof -
  have "\<bar>fmt_float 2 (x * y) - x * y\<bar> \<le> 1 / 200" for x
    using fmt_float_bound [of 2 "x * y"] by simp
  then show ?thesis
    unfolding self'_def getIPAR_yield_avail [OF assms(1-8)]
    by (simp add: rounded_yield_def)
qed

theorem getIPAR_yield_rounded_witness:
  "attributes (getIPAR_yield (Some 0.8) yield_site) ''SimYield'' = Some (PyFloat 0.99)
   \<and> attributes (getIPAR_yield (Some 0.8) yield_site) ''SimYield_pH'' = Some PyNone
   \<and> attributes (getIPAR_yield (Some 0.8) yield_site) ''SimYield_pM'' = Some (PyFloat 8)
   \<and> attributes (getIPAR_yield (Some 0.8) yield_site) ''SimYield_pHpM'' = Some PyNone
   \<and> errors (getIPAR_yield (Some 0.8) yield_site) = []"
proof -
  have a: "attributes yield_site ''sumGPP_HM'' = Some (PyFloat 1.234)"
    "attributes yield_site ''sumGPP_pHM'' = Some PyNone"
    "attributes yield_site ''sumGPP_HpM'' = Some (PyFloat 10)"
    "attributes yield_site ''sumGPP_pHpM'' = Some PyNone"
    by (simp_all add: yield_site_def init_def)
  have b: "PyFloat 1.234 = PyNone \<or> (\<exists>x. PyFloat 1.234 = PyFloat x)"
    "PyNone = PyNone \<or> (\<exists>x. PyNone = PyFloat x)"
    "PyFloat 10 = PyNone \<or> (\<exists>x. PyFloat 10 = PyFloat x)"
    by blast+
  have r: "rounded_yield 0.8 (PyFloat 1.234) = PyFloat 0.99"
    "rounded_yield 0.8 (PyFloat 10) = PyFloat 8"
    by (simp_all add: rounded_yield_def fmt_float_def round_half_even_def Let_def)
  have e: "errors yield_site = []"
    by (simp add: yield_site_def init_def)
  from getIPAR_yield_rounded [OF a(1) b(1) a(2) b(2) a(3) b(3) a(4) b(2), where y = "0.8"]
  show ?thesis using r e by (simp add: rounded_yield_def)
qed

text \<open>
  Claim C6 as stated fails because of the rounding: with a summed GPP of 1.234 and a yield
  factor of 0.8 the product is 0.9872, and \<open>SimYield\<close> is 0.99.
\<close>

theorem getIPAR_yield_not_product:
  "attributes yield_site ''sumGPP_HM'' = Some (PyFloat 1.234)
   \<and> attributes (getIPAR_yield (Some 0.8) yield_site) ''SimYield'' = Some (PyFloat 0.99)
   \<and> (1.234 * 0.8 :: real) = 0.9872"
  by (simp add: getIPAR_yield_def try_except_def then_do_def yield_assign_def yield_value_def
      yield_site_def init_def fmt_float_def round_half_even_def Let_def)

lemma length_cumsum_from: "length (cumsum_from a xs) = length xs"
  by (induction xs arbitrary: a) simp_all

lemma cumsum_nonempty: "xs \<noteq> [] \<Longrightarrow> cumsum xs \<noteq> []"
  using length_cumsum_from [of 0 xs] by (auto simp add: cumsum_def)

lemma gpp_product_eq:
  assumes "length pf = length sr" "length ip = length sr"
  shows "gpp_product r sr pf ip =
           Inr (map (\<lambda>(s, p, i). s * 0.5 * r * p * i) (zip sr (zip pf ip)))"
proof -
  have "map (\<lambda>(x, y). x * y) (zip (map (\<lambda>(x, y). x * y) (zip (map (\<lambda>x. x * 0.5 * r) sr) pf)) ip)
        = map (\<lambda>(s, p, i). s * 0.5 * r * p * i) (zip sr (zip pf ip))"
    using assms by (intro nth_equalityI) simp_all
  with assms show ?thesis by (simp add: gpp_product_def mul_series_def)
qed

lemma gpp_values_avail:
  fixes r :: real
  assumes "series self (''SolRad_'' @ X) = Some (Some sr)" "series self (''PRFT_'' @ X) = Some (Some pf)"
    "series self (''iPAR_'' @ X) = Some (Some ip)" "length pf = length sr" "length ip = length sr" "sr \<noteq> []"
  defines "g \<equiv> map (\<lambda>(s, p, i). s * 0.5 * r * p * i) (zip sr (zip pf ip))"
  shows "gpp_values (Some r) X self = Inr (Some (g, Max (set (cumsum g))))"
proof -
  from assms(4-6) have "g \<noteq> []" by (cases sr; cases pf; cases ip) (simp_all add: g_def)
  from nanmax_Max [OF cumsum_nonempty [OF this]] assms(1-5) show ?thesis
    by (simp add: gpp_values_def gpp_inputs_def gpp_product_eq g_def)
qed

lemma keeps_then_do: "keeps k f \<Longrightarrow> keeps k g \<Longrightarrow> keeps k (then_do f g)"
  unfolding keeps_def then_do_def
  by (auto split: prod.splits option.splits) (metis snd_conv)+

lemma keeps_gpp_block:
  "k \<noteq> ''cGPP_'' @ X \<Longrightarrow> k \<noteq> ''sumGPP_'' @ X \<Longrightarrow> keeps k (gpp_block rue X)"
  unfolding keeps_def gpp_block_def set_gpp_attrs_def set_gpp_none_def
  by (auto split: sum.splits option.splits)

lemma keeps_gpp_block_corr:
  "k \<noteq> ''cGPP_'' @ X \<Longrightarrow> k \<noteq> ''sumGPP_'' @ X \<Longrightarrow> k \<noteq> ''NDVI_atHeading_'' @ X \<Longrightarrow>
   keeps k (gpp_block_corr rue X)"
  unfolding keeps_def gpp_block_corr_def set_gpp_attrs_def set_gpp_none_def set_NDVI_atHeading_def
  by (auto split: sum.splits option.splits)

lemma keeps_rest:
  "keeps ''NDVI_atHeading_EH''
     (then_do (gpp_block_corr rue ''pEH'')
     (then_do (gpp_block_corr rue ''EpH'')
     (then_do (gpp_block_corr rue ''pEpH'')
     (then_do (gpp_block rue ''HM'')
     (then_do (gpp_block rue ''pHM'')
     (then_do (gpp_block rue ''HpM'')
              (gpp_block rue ''pHpM'')))))))"
  by (intro keeps_then_do keeps_gpp_block keeps_gpp_block_corr) simp_all

lemma try_except_keeps:
  assumes "keeps k rest" "b self = (r, s1)"
  shows "series (try_except (then_do b rest) p self) = series s1
       \<and> norm_tt (try_except (then_do b rest) p self) = norm_tt s1
       \<and> attributes (try_except (then_do b rest) p self) k = attributes s1 k"
proof (cases r)
  case None
  obtain r2 s2 where rs: "rest s1 = (r2, s2)" by (cases "rest s1")
  with assms(1) have "series s2 = series s1" "norm_tt s2 = norm_tt s1" "attributes s2 k = attributes s1 k"
    unfolding keeps_def by (metis snd_conv)+
  with None rs assms(2) show ?thesis
    by (cases r2) (simp_all add: try_except_def then_do_def append_error_def)
next
  case (Some err)
  with assms(2) show ?thesis
    by (simp add: try_except_def then_do_def append_error_def)
qed

lemma gpp_block_EH_avail:
  fixes r :: real
  assumes "series self ''SolRad_EH'' = Some (Some sr)" "series self ''PRFT_EH'' = Some (Some pf)"
    "series self ''iPAR_EH'' = Some (Some ip)" "length pf = length sr" "length ip = length sr" "sr \<noteq> []"
  defines "g \<equiv> map (\<lambda>(s, p, i). s * 0.5 * r * p * i) (zip sr (zip pf ip))"
  defines "mx \<equiv> Max (set (cumsum g))"
  defines "self1 \<equiv> set_NDVI_atHeading ''EH'' mx (set_gpp_attrs ''EH'' g mx self)"
  shows "gpp_block_EH env (Some r) self =
     (case norm_tt self ''Norm_TT_HM'' of
        None \<Rightarrow> (Some ''Site object has no attribute Norm_TT_HM'', self1)
      | Some None \<Rightarrow> (None, self1)
      | Some (Some tt) \<Rightarrow>
          (case calculateNDVI_HM env tt (corrected_NDVI_atHeading mx) of
             Inl err \<Rightarrow> (Some err, self1)
           | Inr None \<Rightarrow>
               (Some ''NoneType object is not iterable'',
                self1\<lparr>series := (series self1)(''NDVI'' \<mapsto> None)\<rparr>)
           | Inr (Some vs) \<Rightarrow>
               (None, self1\<lparr>series := (series self1)(''NDVI'' \<mapsto> Some (denormalize_NDVI vs))\<rparr>)))"
proof -
  have a: "series self (''SolRad_'' @ ''EH'') = Some (Some sr)"
    "series self (''PRFT_'' @ ''EH'') = Some (Some pf)"
    "series self (''iPAR_'' @ ''EH'') = Some (Some ip)"
    using assms(1-3) by simp_all
  have v: "gpp_values (Some r) ''EH'' self = Inr (Some (g, mx))"
    using gpp_values_avail [OF a assms(4-6), of r] by (simp only: g_def mx_def)
  have n: "norm_tt self1 = norm_tt self"
    by (simp add: self1_def set_NDVI_atHeading_def set_gpp_attrs_def)
  show ?thesis
    by (simp only: gpp_block_EH_def v sum.simps option.simps prod.simps Let_def n
        flip: self1_def)
qed

lemma getIPAR_GPP_EH:
  fixes r :: real and env :: pyenv
  assumes "series self ''SolRad_EH'' = Some (Some sr)" "series self ''PRFT_EH'' = Some (Some pf)"
    "series self ''iPAR_EH'' = Some (Some ip)" "length pf = length sr" "length ip = length sr" "sr \<noteq> []"
  defines "g \<equiv> map (\<lambda>(s, p, i). s * 0.5 * r * p * i) (zip sr (zip pf ip))"
  defines "mx \<equiv> Max (set (cumsum g))"
  defines "self' \<equiv> getIPAR_GPP env (Some r) self"
  shows "attributes self' ''NDVI_atHeading_EH'' = Some (PyFloat (fmt_float 3 (corrected_NDVI_atHeading mx)))"
    and "norm_tt self ''Norm_TT_HM'' = Some (Some tt) \<Longrightarrow>
         calculateNDVI_HM env tt (corrected_NDVI_atHeading mx) = Inr (Some vs) \<Longrightarrow>
         series self' ''NDVI'' = Some (Some (denormalize_NDVI vs))"
    and "norm_tt self ''Norm_TT_HM'' = Some None \<Longrightarrow> series self' ''NDVI'' = series self ''NDVI''"
proof -
  let ?self1 = "set_NDVI_atHeading ''EH'' mx (set_gpp_attrs ''EH'' g mx self)"
  let ?rest = "then_do (gpp_block_corr (Some r) ''pEH'')
     (then_do (gpp_block_corr (Some r) ''EpH'')
     (then_do (gpp_block_corr (Some r) ''pEpH'')
     (then_do (gpp_block (Some r) ''HM'')
     (then_do (gpp_block (Some r) ''pHM'')
     (then_do (gpp_block (Some r) ''HpM'')
              (gpp_block (Some r) ''pHpM''))))))"
  note blk = gpp_block_EH_avail [OF assms(1-6), where r = r and env = env, folded g_def mx_def]
  obtain res s1 where b: "gpp_block_EH env (Some r) self = (res, s1)"
    by (cases "gpp_block_EH env (Some r) self")
  from try_except_keeps [where rest = ?rest and b = "gpp_block_EH env (Some r)" and self = self
      and p = "''Cumulative GPP from Heading to Maturity. Error: ''", OF keeps_rest b]
  have k: "series self' = series s1" "attributes self' ''NDVI_atHeading_EH'' = attributes s1 ''NDVI_atHeading_EH''"
    by (simp_all add: self'_def getIPAR_GPP_def)
  have at1: "attributes ?self1 ''NDVI_atHeading_EH'' = Some (PyFloat (fmt_float 3 (corrected_NDVI_atHeading mx)))"
    by (simp add: set_NDVI_atHeading_def)
  have se1: "series ?self1 = series self"
    by (simp add: set_NDVI_atHeading_def set_gpp_attrs_def)
  from b blk have "attributes s1 ''NDVI_atHeading_EH'' = attributes ?self1 ''NDVI_atHeading_EH''"
    by (auto split: option.splits sum.splits)
  with k at1 show "attributes self' ''NDVI_atHeading_EH'' = Some (PyFloat (fmt_float 3 (corrected_NDVI_atHeading mx)))"
    by simp
  show "series self' ''NDVI'' = Some (Some (denormalize_NDVI vs))"
    if "norm_tt self ''Norm_TT_HM'' = Some (Some tt)"
      "calculateNDVI_HM env tt (corrected_NDVI_atHeading mx) = Inr (Some vs)"
    using b blk that k by auto
  show "series self' ''NDVI'' = series self ''NDVI''" if "norm_tt self ''Norm_TT_HM'' = Some None"
    using b blk that k se1 by auto
qed

text \<open>
  Claim C7, as the code has it. When \<open>RUE\<close> is a number and the solar radiation, PRFT and
  iPAR series from emergence to heading are present, non-empty and of one length, the
  corrected NDVI at heading is \<open>0.00024355578828840187 * max(cGPP_EH) + 0.5755361655424565\<close>
  (the attribute \<open>NDVI_atHeading_EH\<close> holds it rounded to three decimals). When the
  normalized thermal time from heading to maturity is available, the curve is recomputed by
  \<open>calculateNDVI_HM\<close> with the corrected value, and \<open>self.NDVI\<close> holds \<open>v * (0.94 - 0.16) +
  0.16\<close> for each recomputed \<open>v\<close>; when it is \<open>None\<close>, \<open>self.NDVI\<close> is left as it was.
\<close>

theorem getIPAR_corrected_NDVI:
  fixes r :: real and env :: pyenv and self :: site
  assumes "series self ''SolRad_EH'' = Some (Some sr)" "series self ''PRFT_EH'' = Some (Some pf)"
    "series self ''iPAR_EH'' = Some (Some ip)" "length pf = length sr" "length ip = length sr"
    "sr \<noteq> []"
  defines "GPP_EH \<equiv> map (\<lambda>(s, p, i). s * 0.5 * r * p * i) (zip sr (zip pf ip))"
  defines "corrected \<equiv> 0.00024355578828840187 * Max (set (cumsum GPP_EH)) + 0.5755361655424565"
  defines "self' \<equiv> getIPAR_GPP env (Some r) self"
  shows "attributes self' ''NDVI_atHeading_EH'' = Some (PyFloat (fmt_float 3 corrected))
       \<and> (\<forall>tt vs. norm_tt self ''Norm_TT_HM'' = Some (Some tt)
              \<and> calculateNDVI_HM env tt corrected = Inr (Some vs) \<longrightarrow>
            series self' ''NDVI'' = Some (Some (map (\<lambda>v. v * (0.94 - 0.16) + 0.16) vs)))
       \<and> (norm_tt self ''Norm_TT_HM'' = Some None \<longrightarrow> series self' ''NDVI'' = series self ''NDVI'')"
  using getIPAR_GPP_EH [OF assms(1-6), where r = r and env = env]
  unfolding self'_def corrected_def GPP_EH_def corrected_NDVI_atHeading_def denormalize_NDVI_def
  by blast

theorem getIPAR_corrected_NDVI_witness:
  "attributes (getIPAR_GPP example_env (Some 3) gpp_site_HM) ''NDVI_atHeading_EH''
     = Some (PyFloat 0.583)
   \<and> series (getIPAR_GPP example_env (Some 3) gpp_site_HM) ''NDVI''
     = Some (Some [(0.00024355578828840187 * 30 + 0.5755361655424565) * (0.94 - 0.16) + 0.16,
                   (0.00024355578828840187 * 30 + 0.5755361655424565) / 2 * (0.94 - 0.16) + 0.16])"
proof -
  have s: "series gpp_site_HM ''SolRad_EH'' = Some (Some [20, 20])"
    "series gpp_site_HM ''PRFT_EH'' = Some (Some [1, 1])"
    "series gpp_site_HM ''iPAR_EH'' = Some (Some [0.5, 0.5])"
    by (simp_all add: gpp_site_HM_def gpp_site_def init_def)
  have l: "length [1, 1 :: real] = length [20, 20 :: real]"
    "length [0.5, 0.5 :: real] = length [20, 20 :: real]" "[20, 20 :: real] \<noteq> []"
    by simp_all
  have n: "norm_tt gpp_site_HM ''Norm_TT_HM'' = Some (Some [Fin 0, Fin 1])"
    by (simp add: gpp_site_HM_def)
  have c: "Max (set (cumsum (map (\<lambda>(s, p, i). s * 0.5 * 3 * p * i)
             (zip [20, 20] (zip [1, 1] [0.5, 0.5 :: real]))))) = 30"
    by (simp add: cumsum_def)
  have f: "fmt_float 3 (0.00024355578828840187 * 30 + 0.5755361655424565) = 0.583"
    by (simp add: fmt_float_def round_half_even_def Let_def)
  have k: "calculateNDVI_HM example_env [Fin 0, Fin 1] x = Inr (Some [x, x / 2])" for x
    by (simp add: example_env_def)
  from getIPAR_corrected_NDVI [OF s l, where r = 3 and env = example_env]
  show ?thesis unfolding c f using n k by simp
qed

text \<open>
  Claim C7 as stated fails when the normalized thermal time from heading to maturity is
  \<open>None\<close> (a site without an observed maturity date): the GPP series from emergence to
  heading is available and the NDVI at heading is corrected, but no curve is recomputed
  and \<open>self.NDVI\<close> is never assigned.
\<close>

theorem getIPAR_NDVI_not_recomputed:
  "norm_tt gpp_site ''Norm_TT_HM'' = Some None
   \<and> attributes (getIPAR_GPP example_env (Some 3) gpp_site) ''cGPP_EH'' = Some (PyFloat 30)
   \<and> attributes (getIPAR_GPP example_env (Some 3) gpp_site) ''NDVI_atHeading_EH''
       = Some (PyFloat 0.583)
   \<and> series (getIPAR_GPP example_env (Some 3) gpp_site) ''NDVI'' = None"
  by code_simp

lemma np_argmin_nonempty: "xs \<noteq> [] \<Longrightarrow> \<exists>n. np_argmin xs = Inr n \<and> n < length xs"
  by (simp add: np_argmin_def argmin_less)

lemma maturity_variant_succeeds:
  assumes "\<And>xs. length (estimate_TAdjDay env xs th sc ra) = length xs"
    and "row \<in> set w" "a \<le> Date row"
  shows "\<exists>d. maturity_variant env w (Some a) sd th sc ra gf
              = Inr (d, days_between d sd, PyInt (d - a))
            \<and> d \<in> Date ` set w \<and> a \<le> d"
proof -
  let ?df = "filter (\<lambda>row. a \<le> Date row) w"
  let ?c = "cumsum (estimate_TAdjDay env (map TAVG ?df) th sc ra)"
  from assms(2,3) have ne: "?df \<noteq> []" by (auto simp add: filter_empty_conv)
  have len: "length ?c = length ?df"
    by (simp add: cumsum_def length_cumsum_from assms(1))
  with ne have "map (\<lambda>c. \<bar>c - gf\<bar>) ?c \<noteq> []" by auto
  from np_argmin_nonempty [OF this] obtain n
    where n: "np_argmin (map (\<lambda>c. \<bar>c - gf\<bar>) ?c) = Inr n" "n < length ?df"
    using len by auto
  from n(2) have "?df ! n \<in> set ?df" by (rule nth_mem)
  then have "Date (?df ! n) \<in> Date ` set w" "a \<le> Date (?df ! n)" by auto
  with n show ?thesis
    by (auto simp add: maturity_variant_def Let_def days_between_def)
qed

lemma getMaturityDate_unfold:
  assumes "weather self = Some w" "attributes self ''sowing'' = Some s" "\<not> date_missing s"
    "to_datetime_ymd env s = Inr sd"
  shows "getMaturityDate env m threshold scale rate daysGF self =
     (case read_date env (attributes self ''heading'') of
        Inl err \<Rightarrow> getMaturityDate_except err None None self
      | Inr heading_anchor \<Rightarrow>
          (case read_date env (attributes self ''PredHeading'') of
             Inl err \<Rightarrow> getMaturityDate_except err None None self
           | Inr pred_anchor \<Rightarrow>
               (case
                  (case heading_anchor of
                     None \<Rightarrow> Inr None
                   | Some hdate \<Rightarrow>
                       (case maturity_variant env w hdate sd
                               (default_parameter env m TDAYS_THRESHOLD_MATURITY threshold)
                               (default_parameter env m TDAYS_SCALE_MATURITY scale)
                               (default_parameter env m TDAYS_RATE_MATURITY rate)
                               (default_parameter env m DAYS_GRAIN_FILLING daysGF) of
                          Inl err \<Rightarrow> Inl err
                        | Inr v \<Rightarrow> Inr (Some v)))
                of
                  Inl err \<Rightarrow> getMaturityDate_except err None None self
                | Inr H \<Rightarrow>
                    (case pred_anchor of
                       None \<Rightarrow> (Some (H, None), self)
                     | Some pdate \<Rightarrow>
                         (case maturity_variant env w pdate sd
                               (default_parameter env m TDAYS_THRESHOLD_MATURITY threshold)
                               (default_parameter env m TDAYS_SCALE_MATURITY scale)
                               (default_parameter env m TDAYS_RATE_MATURITY rate)
                               (default_parameter env m DAYS_GRAIN_FILLING daysGF) of
                            Inl err \<Rightarrow> getMaturityDate_except err H None self
                          | Inr v \<Rightarrow> (Some (H, Some v), self))))))"
  using assms by (simp add: getMaturityDate_def read_date_def Let_def)

lemma date_invalid_missing: "date_invalid v \<Longrightarrow> date_missing v"
  by (cases v) auto

text \<open>
  Claim C8, as the code has it, for a site with weather data and a sowing date that is
  valid and parses. Each variant is computed, with its own maturity date, days to maturity
  and days from heading to maturity, when its heading date is available and its
  computation succeeds, whether the other heading date is absent or present and
  computed as well; \<open>getEstimatedMaturity\<close> stores the results. A variant's computation
  succeeds when the weather has a row on or after its heading date (and \<open>estimate_TAdjDay\<close>
  gives one value per day). Both variants share one \<open>try\<close> block: when the computation from
  the observed heading fails, the variant of the predicted heading is not computed.
\<close>

theorem getMaturityDate_variants:
  fixes env :: pyenv and self :: site and m :: "model option"
    and threshold scale rate daysGF :: "real option"
  assumes "weather self = Some w" "attributes self ''sowing'' = Some s" "\<not> date_missing s"
    "to_datetime_ymd env s = Inr sd"
  defines "th \<equiv> default_parameter env m TDAYS_THRESHOLD_MATURITY threshold"
  defines "sc \<equiv> default_parameter env m TDAYS_SCALE_MATURITY scale"
  defines "ra \<equiv> default_parameter env m TDAYS_RATE_MATURITY rate"
  defines "gf \<equiv> default_parameter env m DAYS_GRAIN_FILLING daysGF"
  defines "variant \<equiv> (\<lambda>a. maturity_variant env w a sd th sc ra gf)"
  defines "heading_anchor \<equiv> read_date env (attributes self ''heading'')"
  defines "pred_anchor \<equiv> read_date env (attributes self ''PredHeading'')"
  defines "res \<equiv> getMaturityDate env m threshold scale rate daysGF self"
  shows "(heading_anchor = Inr (Some h) \<and> variant h = Inr v \<and> pred_anchor = Inr None \<longrightarrow>
            res = (Some (Some v, None), self))
       \<and> (heading_anchor = Inr None \<and> pred_anchor = Inr (Some p) \<and> variant p = Inr v' \<longrightarrow>
            res = (Some (None, Some v'), self))
       \<and> (heading_anchor = Inr (Some h) \<and> variant h = Inr v
            \<and> pred_anchor = Inr (Some p) \<and> variant p = Inr v' \<longrightarrow>
            res = (Some (Some v, Some v'), self))
       \<and> (heading_anchor = Inr (Some h) \<and> variant h = Inl err \<and> pred_anchor = Inr pp \<longrightarrow>
            fst res = Some (None, None))
       \<and> (res = (Some (H, pH), self) \<longrightarrow>
            getEstimatedMaturity env m threshold scale rate daysGF self
              = set_maturity_attrs env ''pH'' ''pHM'' pH (set_maturity_attrs env ''H'' ''HM'' H self))
       \<and> (\<forall>a row. (\<forall>xs. length (estimate_TAdjDay env xs th sc ra) = length xs)
              \<and> row \<in> set w \<and> a \<le> Date row \<longrightarrow>
            (\<exists>d. variant (Some a) = Inr (d, days_between d sd, PyInt (d - a)) \<and> a \<le> d))"
proof -
  note u = getMaturityDate_unfold [OF assms(1-4), of m threshold scale rate daysGF,
      folded th_def sc_def ra_def gf_def]
  have 1: "res = (Some (Some v, None), self)"
    if "heading_anchor = Inr (Some h) \<and> variant h = Inr v \<and> pred_anchor = Inr None"
    using that unfolding res_def u heading_anchor_def pred_anchor_def variant_def by simp
  have 2: "res = (Some (None, Some v'), self)"
    if "heading_anchor = Inr None \<and> pred_anchor = Inr (Some p) \<and> variant p = Inr v'"
    using that unfolding res_def u heading_anchor_def pred_anchor_def variant_def by simp
  have 3: "res = (Some (Some v, Some v'), self)"
    if "heading_anchor = Inr (Some h) \<and> variant h = Inr v
        \<and> pred_anchor = Inr (Some p) \<and> variant p = Inr v'"
    using that unfolding res_def u heading_anchor_def pred_anchor_def variant_def by simp
  have 4: "fst res = Some (None, None)"
    if "heading_anchor = Inr (Some h) \<and> variant h = Inl err \<and> pred_anchor = Inr pp"
    using that unfolding res_def u heading_anchor_def pred_anchor_def variant_def
    by (simp add: getMaturityDate_except_def)
  have 5: "getEstimatedMaturity env m threshold scale rate daysGF self
              = set_maturity_attrs env ''pH'' ''pHM'' pH (set_maturity_attrs env ''H'' ''HM'' H self)"
    if "res = (Some (H, pH), self)"
    using that assms(2,3) date_invalid_missing [of s] unfolding res_def
    by (auto simp add: getEstimatedMaturity_def try_except_def)
  have 6: "\<exists>d. variant (Some a) = Inr (d, days_between d sd, PyInt (d - a)) \<and> a \<le> d"
    if "(\<forall>xs. length (estimate_TAdjDay env xs th sc ra) = length xs) \<and> row \<in> set w \<and> a \<le> Date row"
    for a row
  proof -
    from that have l: "\<And>xs. length (estimate_TAdjDay env xs th sc ra) = length xs"
      and r: "row \<in> set w" "a \<le> Date row" by simp_all
    from maturity_variant_succeeds [OF l r, of sd gf] show ?thesis
      unfolding variant_def by blast
  qed
  from 1 2 3 4 5 6 show ?thesis by blast
qed

theorem getMaturityDate_variants_witness:
  "fst (getMaturityDate example_env (Some example_model) None None None None maturity_site_ok)
     = Some (Some (16757, PyInt 3, PyInt 1), Some (16758, PyInt 4, PyInt 1))
   \<and> errors (snd (getMaturityDate example_env (Some example_model) None None None None
        maturity_site_ok)) = []"
proof -
  have a: "weather maturity_site_ok = Some example_weather"
    "attributes maturity_site_ok ''sowing'' = Some (PyStr ''2015-11-15'')"
    "\<not> date_missing (PyStr ''2015-11-15'')"
    by (simp_all add: maturity_site_ok_def maturity_site_def init_def)
  have b: "to_datetime_ymd example_env (PyStr ''2015-11-15'') = Inr (Some 16754)"
    by code_simp
  have h: "read_date example_env (attributes maturity_site_ok ''heading'') = Inr (Some (Some 16756))"
    by code_simp
  have p: "read_date example_env (attributes maturity_site_ok ''PredHeading'') = Inr (Some (Some 16757))"
    by code_simp
  have vh: "maturity_variant example_env example_weather (Some 16756) (Some 16754)
       (default_parameter example_env (Some example_model) TDAYS_THRESHOLD_MATURITY None)
       (default_parameter example_env (Some example_model) TDAYS_SCALE_MATURITY None)
       (default_parameter example_env (Some example_model) TDAYS_RATE_MATURITY None)
       (default_parameter example_env (Some example_model) DAYS_GRAIN_FILLING None)
     = Inr (16757, PyInt 3, PyInt 1)"
    by code_simp
  have vp: "maturity_variant example_env example_weather (Some 16757) (Some 16754)
       (default_parameter example_env (Some example_model) TDAYS_THRESHOLD_MATURITY None)
       (default_parameter example_env (Some example_model) TDAYS_SCALE_MATURITY None)
       (default_parameter example_env (Some example_model) TDAYS_RATE_MATURITY None)
       (default_parameter example_env (Some example_model) DAYS_GRAIN_FILLING None)
     = Inr (16758, PyInt 4, PyInt 1)"
    by code_simp
  have e: "errors maturity_site_ok = []"
    by (simp add: maturity_site_ok_def maturity_site_def init_def)
  from getMaturityDate_variants [OF a b, where m = "Some example_model" and threshold = None
      and scale = None and rate = None and daysGF = None and h = "Some 16756"
      and p = "Some 16757" and v = "(16757, PyInt 3, PyInt 1)" and v' = "(16758, PyInt 4, PyInt 1)"]
  have "getMaturityDate example_env (Some example_model) None None None None maturity_site_ok
        = (Some (Some (16757, PyInt 3, PyInt 1), Some (16758, PyInt 4, PyInt 1)), maturity_site_ok)"
    using h p vh vp by simp
  with e show ?thesis by simp
qed

text \<open>
  Claim C8 as stated fails when the computation from the observed heading fails. The site
  below has weather for 2015-11-15 to 2015-11-24, a predicted heading of 2015-11-18 and an
  observed heading of 2017-11-20, after the last weather row: neither variant is computed
  and \<open>PredMaturity_pH\<close> is the string \<open>'None'\<close>, although without the observed heading the
  variant of the predicted heading is computed.
\<close>

theorem getMaturityDate_predicted_not_computed:
  "attributes maturity_site ''PredHeading'' = Some (PyStr ''2015-11-18'')
   \<and> fst (getMaturityDate example_env (Some example_model) None None None None maturity_site)
       = Some (None, None)
   \<and> attributes (getEstimatedMaturity example_env (Some example_model) None None None None
        maturity_site) ''PredMaturity_pH'' = Some (PyStr ''None'')
   \<and> fst (getMaturityDate example_env (Some example_model) None None None None
        (maturity_site\<lparr>attributes := (attributes maturity_site)(''heading'' := None)\<rparr>))
       = Some (None, Some (16758, PyInt 4, PyInt 1))"
  by code_simp



lemma hoare_seq_Nil: "(\<And>st. P st \<Longrightarrow> Q st) \<Longrightarrow> hoare P (seq []) Q E"
  by (simp add: hoare_def)























































text \<open>
  Claim C9: \<open>getPRFT\<close> returns \<open>1 - 0.0025 * (TDay - TOpt)^2\<close> for each day temperature
  (with the optimum of the model when none is passed); it is exactly 1 at the optimum, the
  same at \<open>TOpt + d\<close> and \<open>TOpt - d\<close>, and it is not clamped: 21 degrees above the optimum
  the factor is negative.
\<close>

theorem getPRFT_parabola:
  "getPRFT env m (Some TDay) (Some TOpt) = Some (map (\<lambda>t. 1 - 0.0025 * (t - TOpt)\<^sup>2) TDay)
   \<and> getPRFT env (Some mm) (Some TDay) None
       = getPRFT env (Some mm) (Some TDay) (Some (CROP_OPTIMUM_TEMPERATURE (parameters mm)))
   \<and> getPRFT env m (Some [TOpt]) (Some TOpt) = Some [1]
   \<and> getPRFT env m (Some [TOpt + d]) (Some TOpt) = getPRFT env m (Some [TOpt - d]) (Some TOpt)
   \<and> getPRFT env m (Some [TOpt + 21]) (Some TOpt) = Some [- 0.1025]"
  by (simp add: getPRFT_def calculatePRFT_def power2_eq_square)

end
